theory Spec2Isabelle
  imports Complex_Main "HOL-Library.Word"
begin

unbundle bit_operations_syntax

section \<open>Single-precision values\<close>

text \<open>
  The module computes in C \<^verbatim>\<open>float\<close>. A value is a finite number, one of the two
  infinities or not-a-number. The operations follow IEEE 754 on the special values
  (\<^verbatim>\<open>x / 0\<close>, \<^verbatim>\<open>0 * inf\<close>, \<^verbatim>\<open>inf - inf\<close>, comparisons with NaN); on finite operands
  they are exact. Rounding, overflow of a finite result, underflow and the sign of zero are
  not part of the model. Every divisor of the module that can be zero is a \<^verbatim>\<open>sqrtf\<close>
  result or an unsigned time difference, hence a positive zero: a nonzero finite value
  divided by zero is the infinity of the dividend's sign.
\<close>

datatype cfloat = Fin real | PInf | NInf | NaN

instantiation cfloat :: "{plus, minus, uminus, times, inverse, ord}"
begin

fun uminus_cfloat :: "cfloat \<Rightarrow> cfloat" where
  "uminus_cfloat (Fin a) = Fin (- a)"
| "uminus_cfloat PInf = NInf"
| "uminus_cfloat NInf = PInf"
| "uminus_cfloat NaN = NaN"

fun plus_cfloat :: "cfloat \<Rightarrow> cfloat \<Rightarrow> cfloat" where
  "plus_cfloat NaN _ = NaN"
| "plus_cfloat _ NaN = NaN"
| "plus_cfloat (Fin a) (Fin b) = Fin (a + b)"
| "plus_cfloat PInf NInf = NaN"
| "plus_cfloat NInf PInf = NaN"
| "plus_cfloat PInf _ = PInf"
| "plus_cfloat NInf _ = NInf"
| "plus_cfloat (Fin a) b = b"

definition minus_cfloat :: "cfloat \<Rightarrow> cfloat \<Rightarrow> cfloat" where
  "minus_cfloat a b = a + (- b)"

fun times_cfloat :: "cfloat \<Rightarrow> cfloat \<Rightarrow> cfloat" where
  "times_cfloat NaN _ = NaN"
| "times_cfloat _ NaN = NaN"
| "times_cfloat (Fin a) (Fin b) = Fin (a * b)"
| "times_cfloat (Fin a) b = (if a = 0 then NaN else if 0 < a then b else - b)"
| "times_cfloat a (Fin b) = (if b = 0 then NaN else if 0 < b then a else - a)"
| "times_cfloat PInf b = b"
| "times_cfloat NInf b = - b"

fun divide_cfloat :: "cfloat \<Rightarrow> cfloat \<Rightarrow> cfloat" where
  "divide_cfloat NaN _ = NaN"
| "divide_cfloat _ NaN = NaN"
| "divide_cfloat (Fin a) (Fin b) =
     (if b \<noteq> 0 then Fin (a / b)
      else if a = 0 then NaN else if 0 < a then PInf else NInf)"
| "divide_cfloat (Fin a) _ = Fin 0"
| "divide_cfloat a (Fin b) = (if 0 \<le> b then a else - a)"
| "divide_cfloat _ _ = NaN"

fun inverse_cfloat :: "cfloat \<Rightarrow> cfloat" where
  "inverse_cfloat (Fin a) = (if a \<noteq> 0 then Fin (1 / a) else PInf)"
| "inverse_cfloat NaN = NaN"
| "inverse_cfloat _ = Fin 0"

fun less_cfloat :: "cfloat \<Rightarrow> cfloat \<Rightarrow> bool" where
  "less_cfloat (Fin a) (Fin b) = (a < b)"
| "less_cfloat NInf (Fin b) = True"
| "less_cfloat NInf PInf = True"
| "less_cfloat (Fin a) PInf = True"
| "less_cfloat _ _ = False"

fun less_eq_cfloat :: "cfloat \<Rightarrow> cfloat \<Rightarrow> bool" where
  "less_eq_cfloat (Fin a) (Fin b) = (a \<le> b)"
| "less_eq_cfloat NaN _ = False"
| "less_eq_cfloat _ NaN = False"
| "less_eq_cfloat NInf _ = True"
| "less_eq_cfloat _ PInf = True"
| "less_eq_cfloat _ _ = False"

instance ..

end

text \<open>The C comparison \<^verbatim>\<open>a != b\<close>: true as soon as one side is NaN.\<close>

definition fne :: "cfloat \<Rightarrow> cfloat \<Rightarrow> bool" where
  "fne a b = (a = NaN \<or> b = NaN \<or> a \<noteq> b)"

fun is_finite :: "cfloat \<Rightarrow> bool" where
  "is_finite (Fin a) = True"
| "is_finite _ = False"

text \<open>Neither infinity: a finite value or NaN.\<close>

fun nice :: "cfloat \<Rightarrow> bool" where
  "nice PInf = False"
| "nice NInf = False"
| "nice _ = True"

fun sqrtf :: "cfloat \<Rightarrow> cfloat" where
  "sqrtf (Fin a) = (if 0 \<le> a then Fin (sqrt a) else NaN)"
| "sqrtf PInf = PInf"
| "sqrtf _ = NaN"

fun fabs :: "cfloat \<Rightarrow> cfloat" where
  "fabs (Fin a) = Fin \<bar>a\<bar>"
| "fabs NaN = NaN"
| "fabs _ = PInf"

fun cosf :: "cfloat \<Rightarrow> cfloat" where
  "cosf (Fin a) = Fin (cos a)"
| "cosf _ = NaN"

fun sinf :: "cfloat \<Rightarrow> cfloat" where
  "sinf (Fin a) = Fin (sin a)"
| "sinf _ = NaN"

text \<open>Conversion of a signed and of an unsigned 32-bit integer to \<^verbatim>\<open>float\<close>.\<close>

definition of_i32 :: "32 word \<Rightarrow> cfloat" where
  "of_i32 w = Fin (real_of_int (sint w))"

definition of_u32 :: "32 word \<Rightarrow> cfloat" where
  "of_u32 w = Fin (real (unat w))"

type_synonym vec3 = "cfloat \<times> cfloat \<times> cfloat"
type_synonym quat = "cfloat \<times> cfloat \<times> cfloat \<times> cfloat"
type_synonym mat3 = "vec3 \<times> vec3 \<times> vec3"

definition zeros :: vec3 where
  "zeros = (Fin 0, Fin 0, Fin 0)"

definition F_PI :: cfloat where
  "F_PI = Fin 3.14159265358979323846"

definition DEG2RAD :: cfloat where
  "DEG2RAD = Fin 3.141592653589793 / Fin 180"

definition magKi :: cfloat where
  "magKi = Fin 0.000001"

definition magKp :: cfloat where
  "magKp = Fin 0.0001"

section \<open>The objects the module reads and writes\<close>

text \<open>
  The UAVObject structures are generated headers that the repository's source files do not
  hold; each record lists the fields \<^verbatim>\<open>attitude.c\<close> uses. Latitude and longitude are
  integers in units of 1e-7 degree (they are subtracted before the conversion to
  \<^verbatim>\<open>float\<close>), taken as \<^verbatim>\<open>int32_t\<close>; the satellite count as \<^verbatim>\<open>int8_t\<close>.
\<close>

datatype homelocation_set = HOMELOCATION_SET_FALSE | HOMELOCATION_SET_TRUE

record HomeLocationData =
  Latitude :: "32 word"
  Longitude :: "32 word"
  Altitude :: cfloat
  Be :: vec3
  Set :: homelocation_set

record GPSPositionData =
  Latitude :: "32 word"
  Longitude :: "32 word"
  Altitude :: cfloat
  GeoidSeparation :: cfloat
  Groundspeed :: cfloat
  Heading :: cfloat
  Satellites :: "8 word"
  PDOP :: cfloat

datatype zeroduringarming =
  ATTITUDESETTINGS_ZERODURINGARMING_FALSE | ATTITUDESETTINGS_ZERODURINGARMING_TRUE

record AttitudeSettingsData =
  AccelKp :: cfloat
  AccelKi :: cfloat
  YawBiasRate :: cfloat
  ZeroDuringArming :: zeroduringarming
  GyroBias :: vec3

record RevoCalibrationData =
  mag_var :: vec3
  accel_var :: vec3
  gyro_var :: vec3

text \<open>
  \<^verbatim>\<open>revoSettings.FusionAlgorithm\<close> is an enumeration; \<open>FUSIONALGORITHM_OTHER\<close> stands for
  every value the \<^verbatim>\<open>switch\<close> of \<^verbatim>\<open>AttitudeTask\<close> sends to its \<^verbatim>\<open>default\<close> branch.
\<close>

datatype fusionalgorithm =
  REVOSETTINGS_FUSIONALGORITHM_COMPLIMENTARY
| REVOSETTINGS_FUSIONALGORITHM_INSOUTDOOR
| REVOSETTINGS_FUSIONALGORITHM_INSINDOOR
| FUSIONALGORITHM_OTHER "8 word"

record RevoSettingsData =
  FusionAlgorithm :: fusionalgorithm

datatype armed = FLIGHTSTATUS_ARMED_DISARMED | FLIGHTSTATUS_ARMED_ARMING | FLIGHTSTATUS_ARMED_ARMED

record AttitudeActualData =
  q1 :: cfloat
  q2 :: cfloat
  q3 :: cfloat
  q4 :: cfloat
  Roll :: cfloat
  Pitch :: cfloat
  Yaw :: cfloat

text \<open>\<^verbatim>\<open>PositionActual\<close>, \<^verbatim>\<open>VelocityActual\<close> and \<^verbatim>\<open>NEDPosition\<close> have the same three fields.\<close>

record NEDData =
  North :: cfloat
  East :: cfloat
  Down :: cfloat

datatype alarm = SYSTEMALARMS_ALARM_OK | SYSTEMALARMS_ALARM_WARNING | SYSTEMALARMS_ALARM_ERROR

subsection \<open>The INS engine\<close>

text \<open>
  The engine of \<^verbatim>\<open>insgps.h\<close> is an external collaborator. Its state is the sequence of
  calls made to it, oldest first; what it exposes in \<^verbatim>\<open>Nav\<close> is a function of that
  sequence, which the model takes as a parameter.
\<close>

datatype ins_call =
  INSGPSInit
| INSSetMagVar vec3
| INSSetAccelVar vec3
| INSSetGyroVar vec3
| INSSetMagNorth vec3
| INSSetState vec3 vec3 quat vec3 vec3
| INSResetP "cfloat list"
| INSStatePrediction vec3 vec3 cfloat
| INSCovariancePrediction cfloat
| INSSetPosVelVar cfloat cfloat
| INSCorrection vec3 vec3 vec3 cfloat "16 word"
| INSSetGyroBias vec3

record NavStruct =
  Pos :: vec3
  Vel :: vec3
  q :: quat
  gyro_bias :: vec3

text \<open>
  What the module uses and the source files do not define: the helpers of
  \<^verbatim>\<open>CoordinateConversions.h\<close> other than the cross product, \<^verbatim>\<open>atan2f\<close>, the view
  \<^verbatim>\<open>Nav\<close> of the engine and the sensor masks of \<^verbatim>\<open>insgps.h\<close>. They are parameters
  of every function below.
\<close>

record externals =
  Quaternion2R :: "quat \<Rightarrow> mat3"
  rot_mult :: "mat3 \<Rightarrow> vec3 \<Rightarrow> vec3"
  Quaternion2RPY :: "quat \<Rightarrow> vec3"
  RPY2Quaternion :: "vec3 \<Rightarrow> quat"
  atan2f :: "cfloat \<Rightarrow> cfloat \<Rightarrow> cfloat"
  Nav :: "ins_call list \<Rightarrow> NavStruct"
  MAG_SENSORS :: "16 word"
  BARO_SENSOR :: "16 word"
  POS_SENSORS :: "16 word"
  HORIZ_SENSORS :: "16 word"
  HORIZ_POS_SENSORS :: "16 word"

text \<open>
  Modelled from the spec: \<^verbatim>\<open>CrossProduct\<close> of \<^verbatim>\<open>CoordinateConversions.h\<close> is not among
  the source files; the spec has the two vectors crossed, first argument on the left.
\<close>

definition CrossProduct :: "vec3 \<Rightarrow> vec3 \<Rightarrow> vec3" where
  "CrossProduct v1 v2 =
     (case v1 of (a0, a1, a2) \<Rightarrow> case v2 of (b0, b1, b2) \<Rightarrow>
        (a1 * b2 - b1 * a2, b0 * a2 - a0 * b2, a0 * b1 - b0 * a1))"

subsection \<open>What one call reads from its environment\<close>

text \<open>
  \<open>gyro_rx\<close> to \<open>gps_rx\<close> say whether the \<^verbatim>\<open>xQueueReceive\<close> on that queue returns
  \<^verbatim>\<open>pdTRUE\<close> (for the gyro and accel queues: within the timeout). The other fields are
  the contents of the objects read with \<^verbatim>\<open>...Get\<close>, the two readings of
  \<^verbatim>\<open>xTaskGetTickCount\<close>, and the results of \<^verbatim>\<open>PIOS_DELAY_DiffuS\<close> and
  \<^verbatim>\<open>PIOS_DELAY_GetRaw\<close>.
\<close>

record inputs =
  gyro_rx :: bool
  accel_rx :: bool
  mag_rx :: bool
  baro_rx :: bool
  gps_rx :: bool
  Gyros :: vec3
  Accels :: vec3
  Magnetometer :: vec3
  BaroAltitude :: cfloat
  GPSPosition :: GPSPositionData
  HomeLocation :: HomeLocationData
  AttitudeSettings :: AttitudeSettingsData
  RevoCalibration :: RevoCalibrationData
  RevoSettings :: RevoSettingsData
  FlightStatus_Armed :: armed
  TickCount1 :: "32 word"
  TickCount2 :: "32 word"
  DELAY_DiffuS :: "32 word"
  DELAY_GetRaw :: "32 word"

subsection \<open>The module's state\<close>

text \<open>
  The objects the module writes, its file-scope variables, the function-local statics of
  the two filters and the two locals of \<^verbatim>\<open>AttitudeTask\<close> that live across iterations.
  \<open>last_algorithm = None\<close> is the marker \<^verbatim>\<open>0xfffffff\<close> that no algorithm equals.
\<close>

record state =
  AttitudeActual :: AttitudeActualData
  GyrosBias :: vec3
  PositionActual :: NEDData
  VelocityActual :: NEDData
  NEDPosition :: NEDData
  Alarm_ATTITUDE :: alarm
  attitudeSettings :: AttitudeSettingsData
  homeLocation :: HomeLocationData
  revoCalibration :: RevoCalibrationData
  revoSettings :: RevoSettingsData
  T :: vec3
  accel_mag :: cfloat
  qmag :: cfloat
  mag_err :: vec3
  timeval :: "32 word"
  init :: "8 word"
  init_stage :: "32 word"
  mag_updated :: bool
  baro_updated :: bool
  gps_updated :: bool
  ins_last_time :: "32 word"
  inited :: bool
  ins :: "ins_call list"
  first_run :: bool
  last_algorithm :: "fusionalgorithm option"

definition AlarmsSet :: "alarm \<Rightarrow> state \<Rightarrow> state" where
  "AlarmsSet severity s = s\<lparr>Alarm_ATTITUDE := severity\<rparr>"

definition AlarmsClear :: "state \<Rightarrow> state" where
  "AlarmsClear s = s\<lparr>Alarm_ATTITUDE := SYSTEMALARMS_ALARM_OK\<rparr>"

definition ins_do :: "ins_call \<Rightarrow> state \<Rightarrow> state" where
  "ins_do c s = s\<lparr>ins := ins s @ [c]\<rparr>"

section \<open>Coordinate transform\<close>

text \<open>
  \<^verbatim>\<open>getNED\<close> (lines 696-709): the result code and the three components written to
  \<^verbatim>\<open>NED\<close>. The array passed in is an argument, so that what the function leaves of it
  can be stated.
\<close>

definition getNED :: "state \<Rightarrow> GPSPositionData \<Rightarrow> vec3 \<Rightarrow> 32 word \<times> vec3" where
  "getNED s gpsPosition NED =
     (let dL0 = of_i32 (GPSPositionData.Latitude gpsPosition
                  - HomeLocationData.Latitude (homeLocation s)) / Fin 10000000 * DEG2RAD;
          dL1 = of_i32 (GPSPositionData.Longitude gpsPosition
                  - HomeLocationData.Longitude (homeLocation s)) / Fin 10000000 * DEG2RAD;
          dL2 = GPSPositionData.Altitude gpsPosition + GeoidSeparation gpsPosition
                  - HomeLocationData.Altitude (homeLocation s)
      in case T s of (T0, T1, T2) \<Rightarrow> (0, (T0 * dL0, T1 * dL1, T2 * dL2)))"

text \<open>\<^verbatim>\<open>settingsUpdatedCb\<close> (lines 711-739).\<close>

definition settingsUpdatedCb :: "inputs \<Rightarrow> state \<Rightarrow> state" where
  "settingsUpdatedCb inp s0 =
     (let s = s0\<lparr>attitudeSettings := AttitudeSettings inp,
                  revoCalibration := RevoCalibration inp,
                  revoSettings := RevoSettings inp,
                  homeLocation := HomeLocation inp\<rparr>;
          s = (case GyroBias (attitudeSettings s) of (bx, by, bz) \<Rightarrow>
                 s\<lparr>GyrosBias := (bx / Fin 100, by / Fin 100, bz / Fin 100)\<rparr>);
          lat = of_i32 (HomeLocationData.Latitude (homeLocation s)) / Fin 10000000 * DEG2RAD;
          alt = HomeLocationData.Altitude (homeLocation s);
          s = ins_do (INSSetMagVar (mag_var (revoCalibration s))) s;
          s = ins_do (INSSetAccelVar (accel_var (revoCalibration s))) s;
          s = ins_do (INSSetGyroVar (gyro_var (revoCalibration s))) s
      in s\<lparr>T := (alt + Fin 6378137, cosf lat * (alt + Fin 6378137), - Fin 1)\<rparr>)"

section \<open>Complementary filter\<close>

text \<open>
  Gain scheduling (lines 262-279). \<^verbatim>\<open>AttitudeSettingsGet\<close> reloads the cached settings
  from the object.
\<close>

definition high_gains :: "AttitudeSettingsData \<Rightarrow> AttitudeSettingsData" where
  "high_gains a = a\<lparr>AccelKp := Fin 1, AccelKi := Fin 0.9, YawBiasRate := Fin 0.23\<rparr>"

definition gain_scheduling :: "bool \<Rightarrow> inputs \<Rightarrow> state \<Rightarrow> state" where
  "gain_scheduling first_run_arg inp s0 =
     (let s = (if first_run_arg then s0\<lparr>init := 0\<rparr> else s0)
      in if (init s = 0 \<and> TickCount1 inp < 7000) \<and> 1000 < TickCount2 inp
         then s\<lparr>attitudeSettings := high_gains (attitudeSettings s)\<rparr>
         else if ZeroDuringArming (attitudeSettings s) = ATTITUDESETTINGS_ZERODURINGARMING_TRUE
                 \<and> FlightStatus_Armed inp = FLIGHTSTATUS_ARMED_ARMING
         then s\<lparr>attitudeSettings := high_gains (attitudeSettings s), init := 0\<rparr>
         else if init s = 0
         then s\<lparr>attitudeSettings := AttitudeSettings inp, init := 1\<rparr>
         else s)"

text \<open>Gravity rotated to the body frame (lines 300-302).\<close>

definition gravity_body :: "quat \<Rightarrow> vec3" where
  "gravity_body qq =
     (case qq of (qa, qb, qc, qd) \<Rightarrow>
        (- (Fin 2 * (qb * qd - qa * qc)),
         - (Fin 2 * (qc * qd + qa * qb)),
         - (qa * qa - qb * qb - qc * qc + qd * qd)))"

text \<open>The magnitude of a vector, as lines 306-307, 325 and 330 compute it.\<close>

definition vec_len :: "vec3 \<Rightarrow> cfloat" where
  "vec_len v = (case v of (a, b, c) \<Rightarrow> sqrtf (a * a + b * b + c * c))"

definition vec_div :: "vec3 \<Rightarrow> cfloat \<Rightarrow> vec3" where
  "vec_div v d = (case v of (a, b, c) \<Rightarrow> (a / d, b / d, c / d))"

text \<open>
  The accel error (lines 303-310): the cross product of the measured acceleration with
  the rotated gravity, each component divided by the magnitude of the acceleration.
\<close>

definition accel_error :: "vec3 \<Rightarrow> quat \<Rightarrow> vec3" where
  "accel_error accelsData qq =
     vec_div (CrossProduct accelsData (gravity_body qq)) (vec_len accelsData)"

text \<open>
  The magnetometer error (lines 312-342). The first argument is the result of the test
  \<^verbatim>\<open>xQueueReceive(magQueue, &ev, 0) != pdTRUE\<close>, that is \<open>\<not> mag_rx\<close>.
\<close>

definition mag_error :: "externals \<Rightarrow> bool \<Rightarrow> quat \<Rightarrow> vec3 \<Rightarrow> vec3 \<Rightarrow> vec3" where
  "mag_error X not_received qq mag home_Be =
     (if not_received then
        (let brot = rot_mult X (Quaternion2R X qq) home_Be;
             mag_len = vec_len mag;
             mag' = vec_div mag mag_len;
             bmag = vec_len brot;
             brot' = vec_div brot bmag
         in if bmag < Fin 1 \<or> mag_len < Fin 1 then zeros else CrossProduct mag' brot')
      else zeros)"

text \<open>The bias integral (lines 345-350).\<close>

definition integrate_bias :: "vec3 \<Rightarrow> vec3 \<Rightarrow> cfloat \<Rightarrow> vec3 \<Rightarrow> vec3" where
  "integrate_bias accel_err mag_err_v Ki gyrosBias =
     (case accel_err of (e0, e1, e2) \<Rightarrow> case mag_err_v of (m0, m1, m2) \<Rightarrow>
      case gyrosBias of (bx, by, bz) \<Rightarrow>
        (bx + e0 * Ki, by + e1 * Ki, bz + m2 * magKi))"

text \<open>The rate correction (lines 353-355).\<close>

definition correct_rates :: "vec3 \<Rightarrow> vec3 \<Rightarrow> cfloat \<Rightarrow> cfloat \<Rightarrow> vec3 \<Rightarrow> vec3" where
  "correct_rates accel_err mag_err_v Kp dT gyrosData =
     (case accel_err of (e0, e1, e2) \<Rightarrow> case mag_err_v of (m0, m1, m2) \<Rightarrow>
      case gyrosData of (gx, gy, gz) \<Rightarrow>
        (gx + e0 * Kp / dT, gy + e1 * Kp / dT, gz + (e2 * Kp / dT + m2 * magKp / dT)))"

text \<open>The time step of the quaternion (lines 359-369).\<close>

definition quat_step :: "quat \<Rightarrow> vec3 \<Rightarrow> cfloat \<Rightarrow> quat" where
  "quat_step qq gyrosData dT =
     (case qq of (qa, qb, qc, qd) \<Rightarrow> case gyrosData of (gx, gy, gz) \<Rightarrow>
        (qa + (- qb * gx - qc * gy - qd * gz) * dT * F_PI / Fin 180 / Fin 2,
         qb + (qa * gx - qd * gy + qc * gz) * dT * F_PI / Fin 180 / Fin 2,
         qc + (qd * gx + qa * gy - qb * gz) * dT * F_PI / Fin 180 / Fin 2,
         qd + (- qc * gx + qb * gy + qa * gz) * dT * F_PI / Fin 180 / Fin 2))"

text \<open>The sign flip (lines 371-376).\<close>

definition quat_positive :: "quat \<Rightarrow> quat" where
  "quat_positive qq =
     (case qq of (qa, qb, qc, qd) \<Rightarrow>
        if qa < Fin 0 then (- qa, - qb, - qc, - qd) else qq)"

text \<open>The norm (line 379).\<close>

definition quat_mag :: "quat \<Rightarrow> cfloat" where
  "quat_mag qq = (case qq of (qa, qb, qc, qd) \<Rightarrow> sqrtf (qa * qa + qb * qb + qc * qc + qd * qd))"

text \<open>The division by the norm and the reinitialisation (lines 380-392).\<close>

definition quat_renormalize :: "quat \<Rightarrow> cfloat \<Rightarrow> quat" where
  "quat_renormalize qq m =
     (case qq of (qa, qb, qc, qd) \<Rightarrow>
        if fabs m < Fin 0.001 \<or> fne m m then (Fin 1, Fin 0, Fin 0, Fin 0)
        else (qa / m, qb / m, qc / m, qd / m))"

text \<open>\<^verbatim>\<open>quat_copy\<close> into the object, \<^verbatim>\<open>Quaternion2RPY\<close> and \<^verbatim>\<open>AttitudeActualSet\<close> (lines 394-399).\<close>

definition attitude_q :: "AttitudeActualData \<Rightarrow> quat" where
  "attitude_q a = (q1 a, q2 a, q3 a, q4 a)"

definition publish_attitude :: "externals \<Rightarrow> quat \<Rightarrow> state \<Rightarrow> state" where
  "publish_attitude X qq s =
     (case qq of (qa, qb, qc, qd) \<Rightarrow> case Quaternion2RPY X qq of (r, p, y) \<Rightarrow>
        s\<lparr>AttitudeActual :=
            (AttitudeActual s)\<lparr>q1 := qa, q2 := qb, q3 := qc, q4 := qd,
                                Roll := r, Pitch := p, Yaw := y\<rparr>\<rparr>)"

text \<open>The ground velocity of a fix (lines 419-421 and 634-636).\<close>

definition gps_velocity :: "GPSPositionData \<Rightarrow> vec3" where
  "gps_velocity gpsPosition =
     (Groundspeed gpsPosition * cosf (Heading gpsPosition * F_PI / Fin 180),
      Groundspeed gpsPosition * sinf (Heading gpsPosition * F_PI / Fin 180),
      Fin 0)"

definition ned_data :: "vec3 \<Rightarrow> NEDData \<Rightarrow> NEDData" where
  "ned_data v d = (case v of (n, e, dn) \<Rightarrow> d\<lparr>North := n, East := e, Down := dn\<rparr>)"

text \<open>The GPS pass-through (lines 401-423); the local \<^verbatim>\<open>NED\<close> is uninitialised.\<close>

definition gps_passthrough :: "vec3 \<Rightarrow> inputs \<Rightarrow> state \<Rightarrow> state" where
  "gps_passthrough NED_uninit inp s =
     (if gps_rx inp \<and> HomeLocationData.Set (homeLocation s) = HOMELOCATION_SET_TRUE then
        (let NED = snd (getNED s (GPSPosition inp) NED_uninit);
             s = s\<lparr>PositionActual := ned_data NED (PositionActual s)\<rparr>
         in s\<lparr>VelocityActual := ned_data (gps_velocity (GPSPosition inp)) (VelocityActual s)\<rparr>)
      else s)"

text \<open>
  \<^verbatim>\<open>updateAttitudeComplimentary\<close> (lines 237-428). The argument \<open>NED_uninit\<close> is the
  content of the uninitialised local array of line 404.
\<close>

definition updateAttitudeComplimentary ::
  "externals \<Rightarrow> vec3 \<Rightarrow> bool \<Rightarrow> inputs \<Rightarrow> state \<Rightarrow> 32 word \<times> state" where
  "updateAttitudeComplimentary X NED_uninit first_run_arg inp s0 =
     (if \<not> gyro_rx inp then (- 1, AlarmsSet SYSTEMALARMS_ALARM_WARNING s0)
      else if \<not> accel_rx inp then (- 1, AlarmsSet SYSTEMALARMS_ALARM_WARNING s0)
      else
        (let s = gain_scheduling first_run_arg inp s0;
             dT = of_u32 (DELAY_DiffuS inp) / Fin 1000000;
             s = s\<lparr>timeval := DELAY_GetRaw inp\<rparr>;
             qq = attitude_q (AttitudeActual s);
             s = s\<lparr>accel_mag := vec_len (Accels inp)\<rparr>;
             accel_err = accel_error (Accels inp) qq;
             s = s\<lparr>mag_err := mag_error X (\<not> mag_rx inp) qq (Magnetometer inp)
                                  (Be (HomeLocation inp))\<rparr>;
             s = s\<lparr>GyrosBias := integrate_bias accel_err (mag_err s)
                                    (AccelKi (attitudeSettings s)) (GyrosBias s)\<rparr>;
             gyrosData = correct_rates accel_err (mag_err s)
                           (AccelKp (attitudeSettings s)) dT (Gyros inp);
             qq = quat_positive (quat_step qq gyrosData dT);
             s = s\<lparr>qmag := quat_mag qq\<rparr>;
             qq = quat_renormalize qq (qmag s);
             s = publish_attitude X qq s;
             s = gps_passthrough NED_uninit inp s
         in (0, AlarmsClear s)))"

section \<open>Staged-initialisation INS filter\<close>

definition Pdiag :: "cfloat list" where
  "Pdiag = [Fin 25, Fin 25, Fin 25, Fin 5, Fin 5, Fin 5,
            Fin 0.00001, Fin 0.00001, Fin 0.00001, Fin 0.00001, Fin 0.00001, Fin 0.00001,
            Fin 0.00001, Fin 0.0001, Fin 0.0001, Fin 0.0001]"

text \<open>The initial attitude from the accelerometer and the magnetometer (lines 520-524).\<close>

definition initial_attitude :: "externals \<Rightarrow> vec3 \<Rightarrow> vec3 \<Rightarrow> quat" where
  "initial_attitude X accelsData magData =
     (case accelsData of (ax, ay, az) \<Rightarrow> case magData of (mx, my, mz) \<Rightarrow>
        RPY2Quaternion X
          (atan2f X ax az * Fin 180 / F_PI,
           atan2f X ay az * Fin 180 / F_PI,
           atan2f X mx (- my) * Fin 180 / F_PI))"

text \<open>The gyro rates with the bias added back, in radians (lines 563-565 and 593-595).\<close>

definition gyros_rad :: "vec3 \<Rightarrow> vec3 \<Rightarrow> vec3" where
  "gyros_rad gyrosData gyrosBias =
     (case gyrosData of (gx, gy, gz) \<Rightarrow> case gyrosBias of (bx, by, bz) \<Rightarrow>
        ((gx + bx) * F_PI / Fin 180, (gy + by) * F_PI / Fin 180, (gz + bz) * F_PI / Fin 180))"

definition ins_set_vars :: "state \<Rightarrow> state" where
  "ins_set_vars s0 =
     (let s = ins_do INSGPSInit s0;
          s = ins_do (INSSetMagVar (mag_var (revoCalibration s))) s;
          s = ins_do (INSSetAccelVar (accel_var (revoCalibration s))) s
      in ins_do (INSSetGyroVar (gyro_var (revoCalibration s))) s)"

text \<open>
  The body of the initialisation branch (lines 506-575), entered when the filter is not
  initialised and every sensor the mode needs has been seen. \<open>NED_uninit\<close> is the content
  of the uninitialised local array of line 536.
\<close>

definition ins_init_step :: "externals \<Rightarrow> vec3 \<Rightarrow> bool \<Rightarrow> inputs \<Rightarrow> state \<Rightarrow> state" where
  "ins_init_step X NED_uninit outdoor_mode inp s0 =
     (let s =
        (if init_stage s0 = 0 \<and> \<not> outdoor_mode then
           (let pos = (Fin 0, Fin 0, BaroAltitude inp * - Fin 1);
                s = ins_set_vars s0;
                qq = initial_attitude X (Accels inp) (Magnetometer inp);
                s = ins_do (INSSetState pos zeros qq zeros zeros) s
            in ins_do (INSResetP Pdiag) s)
         else if init_stage s0 = 0 \<and> outdoor_mode then
           (let s = ins_set_vars s0;
                s = ins_do (INSSetMagNorth (Be (HomeLocation inp))) s;
                NED = snd (getNED s (GPSPosition inp) NED_uninit);
                qq = initial_attitude X (Accels inp) (Magnetometer inp);
                s = ins_do (INSSetState NED zeros qq zeros zeros) s
            in ins_do (INSResetP Pdiag) s)
         else if 0 <s init_stage s0 then
           ins_do (INSStatePrediction (gyros_rad (Gyros inp) (GyrosBias s0)) (Accels inp)
                     (Fin 0.002)) s0
         else s0);
          s = s\<lparr>init_stage := init_stage s + 1\<rparr>;
          s = (if 10 <s init_stage s then s\<lparr>inited := True\<rparr> else s)
      in s\<lparr>ins_last_time := DELAY_GetRaw inp\<rparr>)"

text \<open>The clamp of the time step (lines 581-588).\<close>

definition ins_dT :: "inputs \<Rightarrow> cfloat" where
  "ins_dT inp =
     (let dT = of_u32 (DELAY_DiffuS inp) / Fin 1000000
      in if Fin 0.01 < dT then Fin 0.01 else if dT \<le> Fin 0.001 then Fin 0.001 else dT)"

text \<open>
  The sensor mask and the measurements handed to the correction (lines 619-655): the mask,
  \<^verbatim>\<open>NED\<close>, \<^verbatim>\<open>vel\<close>, and the state after the calls made on the way.
\<close>

definition ins_measurements ::
  "externals \<Rightarrow> bool \<Rightarrow> inputs \<Rightarrow> state \<Rightarrow> 16 word \<times> vec3 \<times> vec3 \<times> state" where
  "ins_measurements X outdoor_mode inp s0 =
     (let sensors = 0;
          sensors = (if mag_updated s0 then sensors OR MAG_SENSORS X else sensors);
          sensors = (if baro_updated s0 then sensors OR BARO_SENSOR X else sensors);
          s = ins_do (INSSetMagNorth (Be (HomeLocation inp))) s0
      in if gps_updated s \<and> outdoor_mode then
           (let s = ins_do (INSSetPosVelVar (Fin 0.01) (Fin 0.01)) s;
                sensors = POS_SENSORS X OR HORIZ_SENSORS X;
                vel = gps_velocity (GPSPosition inp);
                NED = snd (getNED s (GPSPosition inp) zeros);
                s = s\<lparr>NEDPosition := ned_data NED (NEDPosition s)\<rparr>
            in (sensors, NED, vel, s))
         else if \<not> outdoor_mode then
           (let s = ins_do (INSSetPosVelVar (Fin 0.01) (Fin 0.01)) s;
                vel = (Fin 0, Fin 0, Fin 0);
                NED = (Fin 0, Fin 0, BaroAltitude inp);
                sensors = sensors OR (HORIZ_SENSORS X OR HORIZ_POS_SENSORS X)
            in (sensors, NED, vel, s))
         else (sensors, zeros, zeros, s))"

text \<open>The bias guard (lines 679-682).\<close>

definition bias_guard :: "externals \<Rightarrow> state \<Rightarrow> state" where
  "bias_guard X s =
     (case gyro_bias (Nav X (ins s)) of (bx, by, bz) \<Rightarrow>
        if Fin 0.1 < fabs bx \<or> Fin 0.1 < fabs by \<or> Fin 0.1 < fabs bz
        then ins_do (INSSetGyroBias zeros) s else s)"

text \<open>
  The cycle of the initialised filter, first half (lines 581-617): the time step, the
  prediction, the attitude and the bias copied from \<^verbatim>\<open>Nav\<close>, the covariance
  prediction.
\<close>

definition ins_predict :: "externals \<Rightarrow> inputs \<Rightarrow> state \<Rightarrow> state" where
  "ins_predict X inp s0 =
     (let dT = ins_dT inp;
          s = s0\<lparr>ins_last_time := DELAY_GetRaw inp\<rparr>;
          s = ins_do (INSStatePrediction (gyros_rad (Gyros inp) (GyrosBias s)) (Accels inp) dT) s;
          s = publish_attitude X (q (Nav X (ins s))) s;
          s = s\<lparr>GyrosBias := gyro_bias (Nav X (ins s))\<rparr>
      in ins_do (INSCovariancePrediction dT) s)"

text \<open>
  Second half (lines 619-684): the measurements, the correction when the mask is not
  empty, the position and the velocity copied from \<^verbatim>\<open>Nav\<close>, the bias guard.
\<close>

definition ins_correct :: "externals \<Rightarrow> bool \<Rightarrow> inputs \<Rightarrow> state \<Rightarrow> state" where
  "ins_correct X outdoor_mode inp s0 =
     (case ins_measurements X outdoor_mode inp s0 of (sensors, NED, vel, s) \<Rightarrow>
        (let s = (if sensors \<noteq> 0
                  then ins_do (INSCorrection (Magnetometer inp) NED vel (BaroAltitude inp) sensors) s
                  else s);
             s = s\<lparr>PositionActual := ned_data (Pos (Nav X (ins s))) (PositionActual s)\<rparr>;
             s = s\<lparr>VelocityActual := ned_data (Vel (Nav X (ins s))) (VelocityActual s)\<rparr>
         in bias_guard X s))"

text \<open>
  The calls the engine has received when lines 664-677 copy \<^verbatim>\<open>Nav\<close> into the position
  and velocity objects: those made while the measurements were built and, when the mask is
  not empty, the correction (lines 619-662).
\<close>

definition ins_fused_calls :: "externals \<Rightarrow> bool \<Rightarrow> inputs \<Rightarrow> state \<Rightarrow> ins_call list" where
  "ins_fused_calls X outdoor_mode inp s0 =
     (case ins_measurements X outdoor_mode inp s0 of (sensors, NED, vel, s) \<Rightarrow>
        if sensors \<noteq> 0
        then ins s @ [INSCorrection (Magnetometer inp) NED vel (BaroAltitude inp) sensors]
        else ins s)"

definition ins_running_step :: "externals \<Rightarrow> bool \<Rightarrow> inputs \<Rightarrow> state \<Rightarrow> state" where
  "ins_running_step X outdoor_mode inp s = ins_correct X outdoor_mode inp (ins_predict X inp s)"

text \<open>
  The sensor flags and the alarm (lines 477-503), after the two blocking receives
  succeeded.
\<close>

definition ins_flags :: "bool \<Rightarrow> inputs \<Rightarrow> state \<Rightarrow> state" where
  "ins_flags outdoor_mode inp s0 =
     (let s = (if inited s0
               then s0\<lparr>mag_updated := False, baro_updated := False, gps_updated := False\<rparr>
               else s0);
          s = s\<lparr>mag_updated := (mag_updated s \<or> mag_rx inp)\<rparr>;
          s = s\<lparr>baro_updated := (baro_updated s \<or> baro_rx inp)\<rparr>;
          s = s\<lparr>gps_updated := (gps_updated s \<or> (gps_rx inp \<and> outdoor_mode))\<rparr>;
          s = s\<lparr>gps_updated := (gps_updated s \<and>
                 (7 \<le>s Satellites (GPSPosition inp) \<and> PDOP (GPSPosition inp) \<le> Fin 4
                  \<and> HomeLocationData.Set (homeLocation s) = HOMELOCATION_SET_TRUE))\<rparr>
      in if \<not> inited s then AlarmsSet SYSTEMALARMS_ALARM_ERROR s
         else if outdoor_mode \<and> Satellites (GPSPosition inp) <s 7
         then AlarmsSet SYSTEMALARMS_ALARM_ERROR s
         else AlarmsClear s)"

text \<open>
  \<^verbatim>\<open>updateAttitudeINSGPS\<close> (lines 441-685). The blocking receive of the accel queue is
  attempted only when the one of the gyro queue succeeded.
\<close>

definition updateAttitudeINSGPS ::
  "externals \<Rightarrow> vec3 \<Rightarrow> bool \<Rightarrow> bool \<Rightarrow> inputs \<Rightarrow> state \<Rightarrow> 32 word \<times> state" where
  "updateAttitudeINSGPS X NED_uninit first_run_arg outdoor_mode inp s0 =
     (let s = s0\<lparr>inited := (if first_run_arg then False else inited s0)\<rparr>
      in if \<not> gyro_rx inp then (- 1, AlarmsSet SYSTEMALARMS_ALARM_WARNING s)
         else if \<not> accel_rx inp then (- 1, AlarmsSet SYSTEMALARMS_ALARM_WARNING s)
         else
           (let s = ins_flags outdoor_mode inp s
            in if \<not> inited s \<and> mag_updated s \<and> baro_updated s
                    \<and> (gps_updated s \<or> \<not> outdoor_mode)
               then (- 1, ins_init_step X NED_uninit outdoor_mode inp s)
               else if \<not> inited s then (- 1, s)
               else (0, ins_running_step X outdoor_mode inp s)))"

section \<open>The task\<close>

text \<open>
  One iteration of the loop of \<^verbatim>\<open>AttitudeTask\<close> (lines 201-227). The watchdog flag is
  not part of the state.
\<close>

definition AttitudeTask_iteration :: "externals \<Rightarrow> vec3 \<Rightarrow> inputs \<Rightarrow> state \<Rightarrow> state" where
  "AttitudeTask_iteration X NED_uninit inp s0 =
     (let s = (if last_algorithm s0 \<noteq> Some (FusionAlgorithm (revoSettings s0))
               then s0\<lparr>last_algorithm := Some (FusionAlgorithm (revoSettings s0)),
                       first_run := True\<rparr>
               else s0);
          s = (case FusionAlgorithm (revoSettings s) of
                 REVOSETTINGS_FUSIONALGORITHM_COMPLIMENTARY \<Rightarrow>
                   snd (updateAttitudeComplimentary X NED_uninit (first_run s) inp s)
               | REVOSETTINGS_FUSIONALGORITHM_INSOUTDOOR \<Rightarrow>
                   snd (updateAttitudeINSGPS X NED_uninit (first_run s) True inp s)
               | REVOSETTINGS_FUSIONALGORITHM_INSINDOOR \<Rightarrow>
                   snd (updateAttitudeINSGPS X NED_uninit (first_run s) False inp s)
               | FUSIONALGORITHM_OTHER v \<Rightarrow> AlarmsSet SYSTEMALARMS_ALARM_ERROR s)
      in s\<lparr>first_run := False\<rparr>)"

section \<open>Concrete states and inputs\<close>

text \<open>
  The state when the task starts: file-scope and static variables as C initialises them
  (zero, \<^verbatim>\<open>init_stage = 0\<close>), the objects at zero, the quaternion and the bias as
  \<^verbatim>\<open>AttitudeInitialize\<close> leaves them (lines 128-143), \<^verbatim>\<open>last_algorithm\<close> invalid
  (line 198).
\<close>

definition zero_ned :: NEDData where
  "zero_ned = \<lparr>North = Fin 0, East = Fin 0, Down = Fin 0\<rparr>"

definition zero_home :: HomeLocationData where
  "zero_home = \<lparr>HomeLocationData.Latitude = 0, HomeLocationData.Longitude = 0,
                 HomeLocationData.Altitude = Fin 0, Be = zeros, Set = HOMELOCATION_SET_FALSE\<rparr>"

definition zero_settings :: AttitudeSettingsData where
  "zero_settings = \<lparr>AccelKp = Fin 0, AccelKi = Fin 0, YawBiasRate = Fin 0,
                     ZeroDuringArming = ATTITUDESETTINGS_ZERODURINGARMING_FALSE,
                     GyroBias = zeros\<rparr>"

definition zero_calibration :: RevoCalibrationData where
  "zero_calibration = \<lparr>mag_var = zeros, accel_var = zeros, gyro_var = zeros\<rparr>"

definition power_on :: state where
  "power_on =
     \<lparr>AttitudeActual = \<lparr>q1 = Fin 1, q2 = Fin 0, q3 = Fin 0, q4 = Fin 0,
                         Roll = Fin 0, Pitch = Fin 0, Yaw = Fin 0\<rparr>,
      GyrosBias = zeros,
      PositionActual = zero_ned,
      VelocityActual = zero_ned,
      NEDPosition = zero_ned,
      Alarm_ATTITUDE = SYSTEMALARMS_ALARM_OK,
      attitudeSettings = zero_settings,
      homeLocation = zero_home,
      revoCalibration = zero_calibration,
      revoSettings = \<lparr>FusionAlgorithm = REVOSETTINGS_FUSIONALGORITHM_COMPLIMENTARY\<rparr>,
      T = zeros,
      accel_mag = Fin 0,
      qmag = Fin 0,
      mag_err = zeros,
      timeval = 0,
      init = 0,
      init_stage = 0,
      mag_updated = False,
      baro_updated = False,
      gps_updated = False,
      ins_last_time = 0,
      inited = False,
      ins = [],
      first_run = False,
      last_algorithm = None\<rparr>"

text \<open>A cycle in which no queue delivers and every object read is at zero.\<close>

definition zero_fix :: GPSPositionData where
  "zero_fix = \<lparr>Latitude = 0, Longitude = 0, Altitude = Fin 0, GeoidSeparation = Fin 0,
                Groundspeed = Fin 0, Heading = Fin 0, Satellites = 0, PDOP = Fin 0\<rparr>"

definition quiet :: inputs where
  "quiet =
     \<lparr>gyro_rx = False, accel_rx = False, mag_rx = False, baro_rx = False, gps_rx = False,
      Gyros = zeros, Accels = zeros, Magnetometer = zeros, BaroAltitude = Fin 0,
      GPSPosition = zero_fix, HomeLocation = zero_home, AttitudeSettings = zero_settings,
      RevoCalibration = zero_calibration,
      RevoSettings = \<lparr>FusionAlgorithm = REVOSETTINGS_FUSIONALGORITHM_COMPLIMENTARY\<rparr>,
      FlightStatus_Armed = FLIGHTSTATUS_ARMED_DISARMED,
      TickCount1 = 0, TickCount2 = 0, DELAY_DiffuS = 0, DELAY_GetRaw = 0\<rparr>"

text \<open>
  An instance of the parameters on which the functions can be evaluated. \<open>Quaternion2R\<close>
  is the earth-to-body rotation matrix of a quaternion, the one whose third column lines
  300-302 write out (negated); \<open>rot_mult\<close> is the product of a matrix with a vector; the
  other helpers return fixed values, the engine exposes a fixed \<^verbatim>\<open>Nav\<close>, and the five
  masks are disjoint groups of bits except that the horizontal position bits are part of
  the position bits.
\<close>

definition test_externals :: externals where
  "test_externals =
     \<lparr>Quaternion2R = (\<lambda>qq. case qq of (qa, qb, qc, qd) \<Rightarrow>
          ((qa * qa + qb * qb - qc * qc - qd * qd,
            Fin 2 * (qb * qc + qa * qd),
            Fin 2 * (qb * qd - qa * qc)),
           (Fin 2 * (qb * qc - qa * qd),
            qa * qa - qb * qb + qc * qc - qd * qd,
            Fin 2 * (qc * qd + qa * qb)),
           (Fin 2 * (qb * qd + qa * qc),
            Fin 2 * (qc * qd - qa * qb),
            qa * qa - qb * qb - qc * qc + qd * qd))),
      rot_mult = (\<lambda>R v. case R of ((r00, r01, r02), (r10, r11, r12), (r20, r21, r22)) \<Rightarrow>
                    case v of (v0, v1, v2) \<Rightarrow>
                      (r00 * v0 + r01 * v1 + r02 * v2,
                       r10 * v0 + r11 * v1 + r12 * v2,
                       r20 * v0 + r21 * v1 + r22 * v2)),
      Quaternion2RPY = (\<lambda>qq. zeros),
      RPY2Quaternion = (\<lambda>rpy. (Fin 1, Fin 0, Fin 0, Fin 0)),
      atan2f = (\<lambda>y x. Fin 0),
      Nav = (\<lambda>calls. \<lparr>Pos = zeros, Vel = zeros, q = (Fin 1, Fin 0, Fin 0, Fin 0),
                         gyro_bias = zeros\<rparr>),
      MAG_SENSORS = 0x1C0,
      BARO_SENSOR = 0x200,
      POS_SENSORS = 0x007,
      HORIZ_SENSORS = 0x018,
      HORIZ_POS_SENSORS = 0x003\<rparr>"

text \<open>The home location and the fix of the spec's coordinate-transform example.\<close>

definition example_home :: HomeLocationData where
  "example_home = \<lparr>HomeLocationData.Latitude = 370000000,
                    HomeLocationData.Longitude = - 1220000000,
                    HomeLocationData.Altitude = Fin 10, Be = zeros,
                    Set = HOMELOCATION_SET_TRUE\<rparr>"

definition example_fix :: GPSPositionData where
  "example_fix = \<lparr>Latitude = 370001000, Longitude = - 1220000000, Altitude = Fin 10,
                   GeoidSeparation = Fin 0, Groundspeed = Fin 0, Heading = Fin 0,
                   Satellites = 8, PDOP = Fin 1\<rparr>"

section \<open>Sequences of cycles of the INS filter\<close>

text \<open>
  A sequence of calls of \<^verbatim>\<open>updateAttitudeINSGPS\<close>, each with its \<^verbatim>\<open>first_run\<close>, its
  \<^verbatim>\<open>outdoor_mode\<close> and what it reads: the results, in order, and the final state.
\<close>

fun ins_cycles ::
  "externals \<Rightarrow> vec3 \<Rightarrow> (bool \<times> bool \<times> inputs) list \<Rightarrow> state \<Rightarrow> 32 word list \<times> state" where
  "ins_cycles X N [] s = ([], s)"
| "ins_cycles X N (c # cs) s =
     (case c of (fr, od, inp) \<Rightarrow>
        case updateAttitudeINSGPS X N fr od inp s of (r, s') \<Rightarrow>
          case ins_cycles X N cs s' of (rs, s'') \<Rightarrow> (r # rs, s''))"

text \<open>
  A call has all required sensors present when the gyro and the accel samples arrive and,
  with the flags as line 483-496 leave them, the magnetometer, the barometer and (outdoors)
  a qualifying GPS fix have been seen: the condition of line 505 without \<^verbatim>\<open>!inited\<close>.
\<close>

definition ins_ready :: "bool \<Rightarrow> bool \<Rightarrow> inputs \<Rightarrow> state \<Rightarrow> bool" where
  "ins_ready fr od inp s =
     (gyro_rx inp \<and> accel_rx inp \<and>
      (let s' = ins_flags od inp (s\<lparr>inited := (if fr then False else inited s)\<rparr>)
       in mag_updated s' \<and> baro_updated s' \<and> (gps_updated s' \<or> \<not> od)))"

text \<open>The number of calls of a sequence that had all required sensors present.\<close>

fun ready_cycles :: "externals \<Rightarrow> vec3 \<Rightarrow> (bool \<times> bool \<times> inputs) list \<Rightarrow> state \<Rightarrow> nat" where
  "ready_cycles X N [] s = 0"
| "ready_cycles X N (c # cs) s =
     (case c of (fr, od, inp) \<Rightarrow>
        (if ins_ready fr od inp s then 1 else 0)
          + ready_cycles X N cs (snd (updateAttitudeINSGPS X N fr od inp s)))"

text \<open>The objects that carry the estimates.\<close>

definition published :: "state \<Rightarrow> AttitudeActualData \<times> vec3 \<times> NEDData \<times> NEDData \<times> NEDData" where
  "published s = (AttitudeActual s, GyrosBias s, PositionActual s, VelocityActual s, NEDPosition s)"

section \<open>Concrete cycles\<close>

text \<open>An indoor cycle in which gyro, accel, magnetometer and barometer deliver.\<close>

definition ready_indoor :: inputs where
  "ready_indoor = quiet\<lparr>gyro_rx := True, accel_rx := True, mag_rx := True, baro_rx := True\<rparr>"

text \<open>
  The filter after eleven such cycles from power-on; then after a call with \<^verbatim>\<open>first_run\<close>
  = true in which the gyro queue times out, as the task makes in the first iteration after
  \<^verbatim>\<open>FusionAlgorithm\<close> has changed (lines 203-206), in either mode; then after one more
  indoor cycle with the four sensors, \<^verbatim>\<open>first_run\<close> true or false.
\<close>

definition initialised_indoor :: "externals \<Rightarrow> vec3 \<Rightarrow> state" where
  "initialised_indoor X N =
     snd (updateAttitudeINSGPS X N False False ready_indoor
            (snd (ins_cycles X N (replicate 10 (False, False, ready_indoor)) power_on)))"

definition switched_back :: "externals \<Rightarrow> vec3 \<Rightarrow> bool \<Rightarrow> state" where
  "switched_back X N outdoor_mode =
     snd (updateAttitudeINSGPS X N True outdoor_mode quiet (initialised_indoor X N))"

definition resumed :: "externals \<Rightarrow> vec3 \<Rightarrow> bool \<Rightarrow> bool \<Rightarrow> state" where
  "resumed X N outdoor_mode fr =
     snd (updateAttitudeINSGPS X N fr False ready_indoor (switched_back X N outdoor_mode))"

text \<open>
  An outdoor cycle in which every queue delivers, with the example fix (8 satellites, PDOP
  1), and a filter that is initialised, with the example home location set.
\<close>

definition outdoor_cycle :: inputs where
  "outdoor_cycle = quiet\<lparr>gyro_rx := True, accel_rx := True, mag_rx := True, baro_rx := True,
     gps_rx := True, GPSPosition := example_fix, HomeLocation := example_home,
     DELAY_DiffuS := 2000\<rparr>"

definition running_outdoor :: state where
  "running_outdoor = (settingsUpdatedCb (quiet\<lparr>HomeLocation := example_home\<rparr>) power_on)
      \<lparr>inited := True, init_stage := 11, ins := []\<rparr>"

text \<open>
  A complementary-filter cycle 2 ms after the previous one, two seconds after boot, with
  the vehicle level and at rest, a magnetometer reading along the body x axis and a home
  field along the earth y axis.
\<close>

definition mag_cycle :: inputs where
  "mag_cycle = quiet\<lparr>gyro_rx := True, accel_rx := True,
     Accels := (Fin 0, Fin 0, - Fin 1), Magnetometer := (Fin 1, Fin 0, Fin 0),
     HomeLocation := zero_home\<lparr>Be := (Fin 0, Fin 1, Fin 0)\<rparr>,
     TickCount1 := 2000, TickCount2 := 2000, DELAY_DiffuS := 2000\<rparr>"

text \<open>
  The same timing with a gyro sample whose x rate is infinite, and a state whose attitude
  is the unit quaternion (0.5, 0.5, -0.5, 0.5).
\<close>

definition inf_gyro_cycle :: inputs where
  "inf_gyro_cycle = quiet\<lparr>gyro_rx := True, accel_rx := True, mag_rx := True,
     Gyros := (PInf, Fin 0, Fin 0), Accels := (Fin 0, Fin 0, - Fin 1),
     TickCount1 := 2000, TickCount2 := 2000, DELAY_DiffuS := 2000\<rparr>"

definition tilted :: state where
  "tilted = power_on\<lparr>AttitudeActual :=
      \<lparr>q1 = Fin 0.5, q2 = Fin 0.5, q3 = - Fin 0.5, q4 = Fin 0.5,
       Roll = Fin 0, Pitch = Fin 0, Yaw = Fin 0\<rparr>\<rparr>"

section \<open>Auxiliary notions for the statements\<close>

text \<open>A state with the cached yaw-bias rate overwritten, and a state with it blanked.\<close>

definition set_yaw :: "cfloat \<Rightarrow> state \<Rightarrow> state" where
  "set_yaw a s = s\<lparr>attitudeSettings := (attitudeSettings s)\<lparr>YawBiasRate := a\<rparr>\<rparr>"

definition forget_yaw :: "state \<Rightarrow> state" where
  "forget_yaw s = set_yaw (Fin 0) s"

section \<open>Arithmetic of the values\<close>


lemma cf_uminus_uminus [simp]: "- (- (a::cfloat)) = a"
  by (cases a) auto




section \<open>The coordinate transform\<close>


lemma T_ins_do [simp]: "T (ins_do c s) = T s"
  by (simp add: ins_do_def)

lemma T_ins_flags [simp]: "T (ins_flags od inp s) = T s"
  by (simp add: ins_flags_def Let_def AlarmsSet_def AlarmsClear_def)

lemma T_ins_init [simp]: "T (ins_init_step X N od inp s) = T s"
  by (simp add: ins_init_step_def ins_set_vars_def Let_def)

lemma T_publish [simp]: "T (publish_attitude X qq s) = T s"
  by (simp add: publish_attitude_def split: prod.splits)

lemma T_guard [simp]: "T (bias_guard X s) = T s"
  by (simp add: bias_guard_def split: prod.splits)

lemma T_measurements:
  "ins_measurements X od inp s = (m, n, v, s') \<Longrightarrow> T s' = T s"
  by (auto simp add: ins_measurements_def Let_def split: if_splits)

lemma T_ins_correct [simp]: "T (ins_correct X od inp s) = T s"
  by (auto simp add: ins_correct_def Let_def split: prod.splits dest: T_measurements)

lemma T_ins_predict [simp]: "T (ins_predict X inp s) = T s"
  by (simp add: ins_predict_def Let_def)





text \<open>
  C9. \<^verbatim>\<open>getNED\<close> returns 0, never -1, for every fix, every cached home location and
  every coefficient vector, also when the home location is not set; the three components
  it writes do not depend on what the array held before, nor on the \<^verbatim>\<open>Set\<close> flag.
\<close>

theorem getNED_total:
  "fst (getNED s gp NED) = 0 \<and> fst (getNED s gp NED) \<noteq> - 1
   \<and> snd (getNED s gp NED) = snd (getNED s gp NED')
   \<and> fst (getNED (s\<lparr>homeLocation := (homeLocation s)\<lparr>Set := HOMELOCATION_SET_FALSE\<rparr>\<rparr>) gp NED) = 0
   \<and> snd (getNED (s\<lparr>homeLocation := (homeLocation s)\<lparr>Set := HOMELOCATION_SET_FALSE\<rparr>\<rparr>) gp NED)
       = snd (getNED s gp NED)"
  by (simp add: getNED_def Let_def split: prod.splits)

section \<open>Sensor timeouts\<close>

text \<open>
  C6. When the gyro or the accel sample is not delivered, either filter returns -1 with
  the alarm at Warning, and the attitude, the gyro bias, the position and the velocity
  objects (and the engine) are as before the call.
\<close>

theorem sensor_timeout:
  assumes "\<not> gyro_rx inp \<or> \<not> accel_rx inp"
  shows "fst (updateAttitudeComplimentary X N fr inp s) = - 1
     \<and> Alarm_ATTITUDE (snd (updateAttitudeComplimentary X N fr inp s)) = SYSTEMALARMS_ALARM_WARNING
     \<and> AttitudeActual (snd (updateAttitudeComplimentary X N fr inp s)) = AttitudeActual s
     \<and> GyrosBias (snd (updateAttitudeComplimentary X N fr inp s)) = GyrosBias s
     \<and> PositionActual (snd (updateAttitudeComplimentary X N fr inp s)) = PositionActual s
     \<and> VelocityActual (snd (updateAttitudeComplimentary X N fr inp s)) = VelocityActual s
     \<and> fst (updateAttitudeINSGPS X N fr od inp s) = - 1
     \<and> Alarm_ATTITUDE (snd (updateAttitudeINSGPS X N fr od inp s)) = SYSTEMALARMS_ALARM_WARNING
     \<and> AttitudeActual (snd (updateAttitudeINSGPS X N fr od inp s)) = AttitudeActual s
     \<and> GyrosBias (snd (updateAttitudeINSGPS X N fr od inp s)) = GyrosBias s
     \<and> PositionActual (snd (updateAttitudeINSGPS X N fr od inp s)) = PositionActual s
     \<and> VelocityActual (snd (updateAttitudeINSGPS X N fr od inp s)) = VelocityActual s
     \<and> ins (snd (updateAttitudeINSGPS X N fr od inp s)) = ins s"
  using assms
  by (auto simp add: updateAttitudeComplimentary_def updateAttitudeINSGPS_def AlarmsSet_def Let_def)

theorem sensor_timeout_witness:
  "\<not> gyro_rx quiet
   \<and> updateAttitudeComplimentary test_externals zeros False quiet power_on
       = (- 1, power_on\<lparr>Alarm_ATTITUDE := SYSTEMALARMS_ALARM_WARNING\<rparr>)
   \<and> updateAttitudeINSGPS test_externals zeros False True (quiet\<lparr>gyro_rx := True\<rparr>) power_on
       = (- 1, power_on\<lparr>Alarm_ATTITUDE := SYSTEMALARMS_ALARM_WARNING\<rparr>)
   \<and> fst (updateAttitudeINSGPS test_externals zeros False True quiet power_on) = - 1"
  using sensor_timeout [of quiet test_externals zeros False power_on True]
  by (simp add: quiet_def updateAttitudeComplimentary_def updateAttitudeINSGPS_def AlarmsSet_def
      power_on_def)

section \<open>The yaw-bias rate\<close>

lemma forget_set_yaw [simp]: "forget_yaw (set_yaw a s) = forget_yaw s"
  by (simp add: forget_yaw_def set_yaw_def)

lemma forget_yaw_fields:
  "AttitudeActual (forget_yaw s) = AttitudeActual s"
  "GyrosBias (forget_yaw s) = GyrosBias s"
  "PositionActual (forget_yaw s) = PositionActual s"
  "VelocityActual (forget_yaw s) = VelocityActual s"
  "Alarm_ATTITUDE (forget_yaw s) = Alarm_ATTITUDE s"
  by (simp_all add: forget_yaw_def set_yaw_def)

lemma forget_yaw_eqD:
  assumes "forget_yaw s = forget_yaw t"
  shows "AttitudeActual s = AttitudeActual t \<and> GyrosBias s = GyrosBias t
    \<and> PositionActual s = PositionActual t \<and> VelocityActual s = VelocityActual t
    \<and> Alarm_ATTITUDE s = Alarm_ATTITUDE t"
  using assms by (metis forget_yaw_fields)

lemma gain_set_yaw:
  "\<exists>c. gain_scheduling fr (inp\<lparr>AttitudeSettings := (AttitudeSettings inp)\<lparr>YawBiasRate := b\<rparr>\<rparr>)
      (set_yaw a s) = set_yaw c (gain_scheduling fr inp s)"
proof -
  let ?l = "gain_scheduling fr (inp\<lparr>AttitudeSettings := (AttitudeSettings inp)\<lparr>YawBiasRate := b\<rparr>\<rparr>)
      (set_yaw a s)"
  have "?l = set_yaw (YawBiasRate (attitudeSettings ?l)) (gain_scheduling fr inp s)"
    by (simp add: gain_scheduling_def set_yaw_def high_gains_def Let_def)
  then show ?thesis ..
qed

lemma publish_set_yaw: "publish_attitude X qq (set_yaw a s) = set_yaw a (publish_attitude X qq s)"
  by (simp add: publish_attitude_def set_yaw_def split: prod.splits)

lemma getNED_set_yaw: "getNED (set_yaw a s) gp N = getNED s gp N"
  by (simp add: getNED_def set_yaw_def)

lemma passthrough_set_yaw:
  "gps_passthrough N inp (set_yaw a s) = set_yaw a (gps_passthrough N inp s)"
  by (auto simp add: gps_passthrough_def Let_def getNED_set_yaw) (simp_all add: set_yaw_def)

lemma passthrough_settings_input:
  "gps_passthrough N (inp\<lparr>AttitudeSettings := x\<rparr>) s = gps_passthrough N inp s"
  by (simp add: gps_passthrough_def)

lemma alarms_set_yaw:
  "AlarmsClear (set_yaw a s) = set_yaw a (AlarmsClear s)"
  "AlarmsSet v (set_yaw a s) = set_yaw a (AlarmsSet v s)"
  by (simp_all add: AlarmsClear_def AlarmsSet_def set_yaw_def)

lemma set_yaw_reads [simp]:
  "AccelKi (attitudeSettings (set_yaw a s)) = AccelKi (attitudeSettings s)"
  "AccelKp (attitudeSettings (set_yaw a s)) = AccelKp (attitudeSettings s)"
  "AttitudeActual (set_yaw a s) = AttitudeActual s"
  "GyrosBias (set_yaw a s) = GyrosBias s"
  by (simp_all add: set_yaw_def)

lemma set_yaw_updates:
  "(set_yaw a s)\<lparr>timeval := t\<rparr> = set_yaw a (s\<lparr>timeval := t\<rparr>)"
  "(set_yaw a s)\<lparr>accel_mag := m\<rparr> = set_yaw a (s\<lparr>accel_mag := m\<rparr>)"
  "(set_yaw a s)\<lparr>mag_err := e\<rparr> = set_yaw a (s\<lparr>mag_err := e\<rparr>)"
  "(set_yaw a s)\<lparr>GyrosBias := g\<rparr> = set_yaw a (s\<lparr>GyrosBias := g\<rparr>)"
  "(set_yaw a s)\<lparr>qmag := m\<rparr> = set_yaw a (s\<lparr>qmag := m\<rparr>)"
  by (simp_all add: set_yaw_def)

lemma complementary_after_gain:
  "gyro_rx inp \<Longrightarrow> accel_rx inp \<Longrightarrow>
   gain_scheduling fr inp' s' = set_yaw c (gain_scheduling fr inp s) \<Longrightarrow>
   inp' = inp\<lparr>AttitudeSettings := x\<rparr> \<Longrightarrow>
   fst (updateAttitudeComplimentary X N fr inp' s') = fst (updateAttitudeComplimentary X N fr inp s)
   \<and> snd (updateAttitudeComplimentary X N fr inp' s')
       = set_yaw c (snd (updateAttitudeComplimentary X N fr inp s))"
  by (simp add: updateAttitudeComplimentary_def Let_def set_yaw_updates publish_set_yaw
      passthrough_set_yaw alarms_set_yaw passthrough_settings_input)

lemma complementary_yaw:
  "fst (updateAttitudeComplimentary X N fr
          (inp\<lparr>AttitudeSettings := (AttitudeSettings inp)\<lparr>YawBiasRate := b\<rparr>\<rparr>) (set_yaw a s))
     = fst (updateAttitudeComplimentary X N fr inp s)
   \<and> forget_yaw (snd (updateAttitudeComplimentary X N fr
          (inp\<lparr>AttitudeSettings := (AttitudeSettings inp)\<lparr>YawBiasRate := b\<rparr>\<rparr>) (set_yaw a s)))
     = forget_yaw (snd (updateAttitudeComplimentary X N fr inp s))"
proof (cases "gyro_rx inp \<and> accel_rx inp")
  case True
  obtain c where c:
    "gain_scheduling fr (inp\<lparr>AttitudeSettings := (AttitudeSettings inp)\<lparr>YawBiasRate := b\<rparr>\<rparr>)
       (set_yaw a s) = set_yaw c (gain_scheduling fr inp s)"
    using gain_set_yaw by blast
  show ?thesis
    using complementary_after_gain [OF _ _ c refl, of X N] True by simp
next
  case False
  then show ?thesis
    by (auto simp add: updateAttitudeComplimentary_def AlarmsSet_def forget_yaw_def set_yaw_def)
qed

text \<open>
  C10. Two runs of the complementary update on the same state and inputs, except for the
  yaw-bias rate held in the cached settings (\<open>a\<close>) and in the settings object (\<open>b\<close>),
  return the same result and leave the same attitude, gyro bias, position, velocity and
  alarm; the two final states differ in the cached yaw-bias rate at most. The yaw terms of
  the update use the constants \<open>magKi\<close> = 1e-6 and \<open>magKp\<close> = 1e-4.
\<close>

theorem yaw_bias_rate_unused:
  "fst (updateAttitudeComplimentary X N fr
          (inp\<lparr>AttitudeSettings := (AttitudeSettings inp)\<lparr>YawBiasRate := b\<rparr>\<rparr>) (set_yaw a s))
     = fst (updateAttitudeComplimentary X N fr inp s)
   \<and> AttitudeActual (snd (updateAttitudeComplimentary X N fr
          (inp\<lparr>AttitudeSettings := (AttitudeSettings inp)\<lparr>YawBiasRate := b\<rparr>\<rparr>) (set_yaw a s)))
     = AttitudeActual (snd (updateAttitudeComplimentary X N fr inp s))
   \<and> GyrosBias (snd (updateAttitudeComplimentary X N fr
          (inp\<lparr>AttitudeSettings := (AttitudeSettings inp)\<lparr>YawBiasRate := b\<rparr>\<rparr>) (set_yaw a s)))
     = GyrosBias (snd (updateAttitudeComplimentary X N fr inp s))
   \<and> PositionActual (snd (updateAttitudeComplimentary X N fr
          (inp\<lparr>AttitudeSettings := (AttitudeSettings inp)\<lparr>YawBiasRate := b\<rparr>\<rparr>) (set_yaw a s)))
     = PositionActual (snd (updateAttitudeComplimentary X N fr inp s))
   \<and> VelocityActual (snd (updateAttitudeComplimentary X N fr
          (inp\<lparr>AttitudeSettings := (AttitudeSettings inp)\<lparr>YawBiasRate := b\<rparr>\<rparr>) (set_yaw a s)))
     = VelocityActual (snd (updateAttitudeComplimentary X N fr inp s))
   \<and> Alarm_ATTITUDE (snd (updateAttitudeComplimentary X N fr
          (inp\<lparr>AttitudeSettings := (AttitudeSettings inp)\<lparr>YawBiasRate := b\<rparr>\<rparr>) (set_yaw a s)))
     = Alarm_ATTITUDE (snd (updateAttitudeComplimentary X N fr inp s))
   \<and> forget_yaw (snd (updateAttitudeComplimentary X N fr
          (inp\<lparr>AttitudeSettings := (AttitudeSettings inp)\<lparr>YawBiasRate := b\<rparr>\<rparr>) (set_yaw a s)))
     = forget_yaw (snd (updateAttitudeComplimentary X N fr inp s))
   \<and> magKi = Fin (1 / 1000000) \<and> magKp = Fin (1 / 10000)"
proof -
  let ?l = "snd (updateAttitudeComplimentary X N fr
          (inp\<lparr>AttitudeSettings := (AttitudeSettings inp)\<lparr>YawBiasRate := b\<rparr>\<rparr>) (set_yaw a s))"
  let ?r = "snd (updateAttitudeComplimentary X N fr inp s)"
  have e: "forget_yaw ?l = forget_yaw ?r"
    by (rule complementary_yaw [THEN conjunct2])
  have f: "fst (updateAttitudeComplimentary X N fr
          (inp\<lparr>AttitudeSettings := (AttitudeSettings inp)\<lparr>YawBiasRate := b\<rparr>\<rparr>) (set_yaw a s))
     = fst (updateAttitudeComplimentary X N fr inp s)"
    by (rule complementary_yaw [THEN conjunct1])
  show ?thesis
    using forget_yaw_eqD [OF e] e f by (simp add: magKi_def magKp_def)
qed

section \<open>The stage counter\<close>

lemma ins_do_fields [simp]:
  "init_stage (ins_do c s) = init_stage s"
  "inited (ins_do c s) = inited s"
  "ins (ins_do c s) = ins s @ [c]"
  "GyrosBias (ins_do c s) = GyrosBias s"
  "AttitudeActual (ins_do c s) = AttitudeActual s"
  "PositionActual (ins_do c s) = PositionActual s"
  "VelocityActual (ins_do c s) = VelocityActual s"
  "NEDPosition (ins_do c s) = NEDPosition s"
  by (simp_all add: ins_do_def)

lemma init_step_stage:
  "init_stage (ins_init_step X N od inp s) = init_stage s + 1"
  "inited (ins_init_step X N od inp s) = (inited s \<or> 10 <s init_stage s + 1)"
  by (simp_all add: ins_init_step_def ins_set_vars_def Let_def)

lemma init_step_published:
  "AttitudeActual (ins_init_step X N od inp s) = AttitudeActual s"
  "GyrosBias (ins_init_step X N od inp s) = GyrosBias s"
  "PositionActual (ins_init_step X N od inp s) = PositionActual s"
  "VelocityActual (ins_init_step X N od inp s) = VelocityActual s"
  "NEDPosition (ins_init_step X N od inp s) = NEDPosition s"
  by (simp_all add: ins_init_step_def ins_set_vars_def Let_def)

lemma flags_fields [simp]:
  "init_stage (ins_flags od inp s) = init_stage s"
  "inited (ins_flags od inp s) = inited s"
  "ins (ins_flags od inp s) = ins s"
  "GyrosBias (ins_flags od inp s) = GyrosBias s"
  "AttitudeActual (ins_flags od inp s) = AttitudeActual s"
  "PositionActual (ins_flags od inp s) = PositionActual s"
  "VelocityActual (ins_flags od inp s) = VelocityActual s"
  "NEDPosition (ins_flags od inp s) = NEDPosition s"
  by (simp_all add: ins_flags_def Let_def AlarmsSet_def AlarmsClear_def)

lemma bias_guard_fields [simp]:
  "init_stage (bias_guard X s) = init_stage s"
  "inited (bias_guard X s) = inited s"
  "GyrosBias (bias_guard X s) = GyrosBias s"
  "AttitudeActual (bias_guard X s) = AttitudeActual s"
  "PositionActual (bias_guard X s) = PositionActual s"
  "VelocityActual (bias_guard X s) = VelocityActual s"
  by (simp_all add: bias_guard_def split: prod.splits)

lemma publish_fields [simp]:
  "init_stage (publish_attitude X qq s) = init_stage s"
  "inited (publish_attitude X qq s) = inited s"
  "ins (publish_attitude X qq s) = ins s"
  "GyrosBias (publish_attitude X qq s) = GyrosBias s"
  "PositionActual (publish_attitude X qq s) = PositionActual s"
  "VelocityActual (publish_attitude X qq s) = VelocityActual s"
  "attitude_q (AttitudeActual (publish_attitude X qq s)) = qq"
  by (simp_all add: publish_attitude_def attitude_q_def split: prod.splits)

lemma measurements_fields:
  assumes "ins_measurements X od inp s = (m, n, v, s')"
  shows "init_stage s' = init_stage s" "inited s' = inited s" "GyrosBias s' = GyrosBias s"
    "AttitudeActual s' = AttitudeActual s" "PositionActual s' = PositionActual s"
    "VelocityActual s' = VelocityActual s"
  using assms by (auto simp add: ins_measurements_def Let_def split: if_splits)

lemma predict_fields [simp]:
  "init_stage (ins_predict X inp s) = init_stage s"
  "inited (ins_predict X inp s) = inited s"
  "PositionActual (ins_predict X inp s) = PositionActual s"
  "VelocityActual (ins_predict X inp s) = VelocityActual s"
  "attitude_q (AttitudeActual (ins_predict X inp s))
     = q (Nav X (ins s @ [INSStatePrediction (gyros_rad (Gyros inp) (GyrosBias s)) (Accels inp)
                            (ins_dT inp)]))"
  "GyrosBias (ins_predict X inp s)
     = gyro_bias (Nav X (ins s @ [INSStatePrediction (gyros_rad (Gyros inp) (GyrosBias s))
                            (Accels inp) (ins_dT inp)]))"
  by (simp_all add: ins_predict_def Let_def)

lemma correct_fields:
  "init_stage (ins_correct X od inp s) = init_stage s"
  "inited (ins_correct X od inp s) = inited s"
  "GyrosBias (ins_correct X od inp s) = GyrosBias s"
  "AttitudeActual (ins_correct X od inp s) = AttitudeActual s"
  by (auto simp add: ins_correct_def Let_def split: prod.splits dest: measurements_fields)

lemma running_stage:
  "init_stage (ins_running_step X od inp s) = init_stage s"
  "inited (ins_running_step X od inp s) = inited s"
  by (simp_all add: ins_running_step_def correct_fields)

lemma first_run_after_init:
  assumes "init_stage s = 11" "gyro_rx inp" "accel_rx inp" "mag_rx inp" "baro_rx inp"
  shows "fst (updateAttitudeINSGPS X N True False inp s) = - 1"
    and "init_stage (snd (updateAttitudeINSGPS X N True False inp s)) = 12"
    and "inited (snd (updateAttitudeINSGPS X N True False inp s))"
    and "ins (snd (updateAttitudeINSGPS X N True False inp s))
       = ins s @ [INSStatePrediction (gyros_rad (Gyros inp) (GyrosBias s)) (Accels inp) (Fin 0.002)]"
proof -
  let ?f = "ins_flags False inp (s\<lparr>inited := False\<rparr>)"
  have f: "mag_updated ?f" "baro_updated ?f" "\<not> inited ?f" "init_stage ?f = 11"
    using assms by (simp_all add: ins_flags_def Let_def AlarmsSet_def AlarmsClear_def)
  have g: "updateAttitudeINSGPS X N True False inp s = (- 1, ins_init_step X N False inp ?f)"
    using f assms by (simp add: updateAttitudeINSGPS_def Let_def)
  have h: "ins (ins_init_step X N False inp ?f)
      = ins ?f @ [INSStatePrediction (gyros_rad (Gyros inp) (GyrosBias ?f)) (Accels inp) (Fin 0.002)]"
    using f(4) by (simp add: ins_init_step_def Let_def word_sless_alt)
  show "fst (updateAttitudeINSGPS X N True False inp s) = - 1"
    by (simp add: g)
  show "init_stage (snd (updateAttitudeINSGPS X N True False inp s)) = 12"
    using assms(1) by (simp add: g init_step_stage)
  show "inited (snd (updateAttitudeINSGPS X N True False inp s))"
    using assms(1) by (simp add: g init_step_stage)
  show "ins (snd (updateAttitudeINSGPS X N True False inp s))
       = ins s @ [INSStatePrediction (gyros_rad (Gyros inp) (GyrosBias s)) (Accels inp) (Fin 0.002)]"
    by (simp add: g h)
qed

lemma stage_never_reset:
  "init_stage (snd (updateAttitudeINSGPS X N fr od inp s)) = init_stage s
      \<or> init_stage (snd (updateAttitudeINSGPS X N fr od inp s)) = init_stage s + 1"
  by (simp add: updateAttitudeINSGPS_def Let_def AlarmsSet_def init_step_stage running_stage)

text \<open>
  C3. The claim has a call with \<^verbatim>\<open>first_run\<close> = true reset the stage counter to 0. The
  code only clears \<^verbatim>\<open>inited\<close> (line 467): a call leaves \<^verbatim>\<open>init_stage\<close> as it is or
  adds one to it. A call with \<^verbatim>\<open>first_run\<close> = true on a filter that had finished its
  initialisation (counter 11), indoors with all sensors delivering, returns -1 with the
  counter at 12 and \<^verbatim>\<open>inited\<close> true again, and the engine has received one prediction and
  no reset; the same through an iteration of the task whose algorithm changed from the
  complementary filter to the indoor INS.
\<close>

theorem first_run_keeps_stage:
  "(init_stage (snd (updateAttitudeINSGPS X N True od inp s)) = init_stage s
      \<or> init_stage (snd (updateAttitudeINSGPS X N True od inp s)) = init_stage s + 1)
   \<and> fst (updateAttitudeINSGPS X N True False
            (inp\<lparr>gyro_rx := True, accel_rx := True, mag_rx := True, baro_rx := True\<rparr>)
            (s\<lparr>init_stage := 11, inited := True\<rparr>)) = - 1
   \<and> init_stage (snd (updateAttitudeINSGPS X N True False
            (inp\<lparr>gyro_rx := True, accel_rx := True, mag_rx := True, baro_rx := True\<rparr>)
            (s\<lparr>init_stage := 11, inited := True\<rparr>))) = 12
   \<and> inited (snd (updateAttitudeINSGPS X N True False
            (inp\<lparr>gyro_rx := True, accel_rx := True, mag_rx := True, baro_rx := True\<rparr>)
            (s\<lparr>init_stage := 11, inited := True\<rparr>)))
   \<and> ins (snd (updateAttitudeINSGPS X N True False
            (inp\<lparr>gyro_rx := True, accel_rx := True, mag_rx := True, baro_rx := True\<rparr>)
            (s\<lparr>init_stage := 11, inited := True\<rparr>)))
       = ins s @ [INSStatePrediction (gyros_rad (Gyros inp) (GyrosBias s)) (Accels inp) (Fin 0.002)]
   \<and> init_stage (AttitudeTask_iteration X N
            (inp\<lparr>gyro_rx := True, accel_rx := True, mag_rx := True, baro_rx := True\<rparr>)
            (s\<lparr>revoSettings := \<lparr>FusionAlgorithm = REVOSETTINGS_FUSIONALGORITHM_INSINDOOR\<rparr>,
                last_algorithm := Some REVOSETTINGS_FUSIONALGORITHM_COMPLIMENTARY,
                init_stage := 11, inited := True\<rparr>)) = 12
   \<and> inited (AttitudeTask_iteration X N
            (inp\<lparr>gyro_rx := True, accel_rx := True, mag_rx := True, baro_rx := True\<rparr>)
            (s\<lparr>revoSettings := \<lparr>FusionAlgorithm = REVOSETTINGS_FUSIONALGORITHM_INSINDOOR\<rparr>,
                last_algorithm := Some REVOSETTINGS_FUSIONALGORITHM_COMPLIMENTARY,
                init_stage := 11, inited := True\<rparr>))"
  using stage_never_reset [of X N True od inp s]
  by (simp add: first_run_after_init AttitudeTask_iteration_def Let_def)

section \<open>The sensor mask\<close>

text \<open>
  C8. The claim has the magnetometer and barometer bits in the mask exactly when those
  samples arrived, next to the GPS bits. Outdoors with a qualifying fix the code assigns
  the mask (line 630), so it is \<^verbatim>\<open>POS_SENSORS | HORIZ_SENSORS\<close> whatever arrived; indoors
  the bits are or-ed in (line 654) and the magnetometer and barometer bits follow the
  flags. In the outdoor cycle in which every queue delivers, the correction is called with
  the mask 0x1F, which has no magnetometer and no barometer bit.
\<close>

theorem outdoor_mask_overwritten:
  "fst (ins_measurements X True inp (s\<lparr>gps_updated := True\<rparr>)) = POS_SENSORS X OR HORIZ_SENSORS X
   \<and> fst (ins_measurements X False inp s) =
       ((if baro_updated s then (if mag_updated s then 0 OR MAG_SENSORS X else 0) OR BARO_SENSOR X
         else (if mag_updated s then 0 OR MAG_SENSORS X else 0))
        OR (HORIZ_SENSORS X OR HORIZ_POS_SENSORS X))
   \<and> ins (snd (updateAttitudeINSGPS test_externals zeros False True outdoor_cycle running_outdoor))
      = [INSStatePrediction zeros zeros (Fin 0.002),
         INSCovariancePrediction (Fin 0.002),
         INSSetMagNorth zeros,
         INSSetPosVelVar (Fin 0.01) (Fin 0.01),
         INSCorrection zeros
           (Fin (1000 / 10000000 * (3.141592653589793 / 180) * (10 + 6378137)), Fin 0, Fin 0)
           zeros (Fin 0) 0x1F]
   \<and> (0x1F :: 16 word) AND MAG_SENSORS test_externals = 0
   \<and> (0x1F :: 16 word) AND BARO_SENSOR test_externals = 0"
proof -
  have a: "fst (ins_measurements X True inp (s\<lparr>gps_updated := True\<rparr>))
             = POS_SENSORS X OR HORIZ_SENSORS X"
    by (simp add: ins_measurements_def Let_def ins_do_def)
  have b: "fst (ins_measurements X False inp s) =
       ((if baro_updated s then (if mag_updated s then 0 OR MAG_SENSORS X else 0) OR BARO_SENSOR X
         else (if mag_updated s then 0 OR MAG_SENSORS X else 0))
        OR (HORIZ_SENSORS X OR HORIZ_POS_SENSORS X))"
    by (simp add: ins_measurements_def Let_def ins_do_def)
  have c: "ins (snd (updateAttitudeINSGPS test_externals zeros False True outdoor_cycle running_outdoor))
      = [INSStatePrediction zeros zeros (Fin 0.002),
         INSCovariancePrediction (Fin 0.002),
         INSSetMagNorth zeros,
         INSSetPosVelVar (Fin 0.01) (Fin 0.01),
         INSCorrection zeros
           (Fin (1000 / 10000000 * (3.141592653589793 / 180) * (10 + 6378137)), Fin 0, Fin 0)
           zeros (Fin 0) 0x1F]"
    apply (simp add: updateAttitudeINSGPS_def outdoor_cycle_def running_outdoor_def quiet_def
        power_on_def settingsUpdatedCb_def ins_flags_def Let_def example_fix_def example_home_def
        ins_do_def AlarmsClear_def AlarmsSet_def zero_home_def zero_settings_def
        zero_calibration_def zeros_def word_sle_eq word_sless_alt)
    apply (simp add: ins_running_step_def ins_predict_def ins_correct_def Let_def ins_dT_def
        of_u32_def ins_do_def gyros_rad_def zeros_def F_PI_def publish_attitude_def
        test_externals_def ins_measurements_def getNED_def gps_velocity_def example_fix_def
        example_home_def of_i32_def DEG2RAD_def bias_guard_def ned_data_def minus_cfloat_def)
    done
  show ?thesis
    unfolding a b c by (simp add: test_externals_def)
qed

section \<open>The staged initialisation\<close>

lemma not_inited_step:
  assumes "\<not> inited s"
  shows "fst (updateAttitudeINSGPS X N fr od inp s) = - 1"
    and "published (snd (updateAttitudeINSGPS X N fr od inp s)) = published s"
    and "init_stage (snd (updateAttitudeINSGPS X N fr od inp s))
           = (if ins_ready fr od inp s then init_stage s + 1 else init_stage s)"
    and "inited (snd (updateAttitudeINSGPS X N fr od inp s))
           = (ins_ready fr od inp s \<and> 10 <s init_stage s + 1)"
  using assms
  by (auto simp add: updateAttitudeINSGPS_def Let_def ins_ready_def init_step_stage AlarmsSet_def
      published_def init_step_published)

lemma sint_stage_Suc:
  "sint (w :: 32 word) = int j \<Longrightarrow> j \<le> 10 \<Longrightarrow> sint (w + 1) = int (Suc j)"
  by (simp add: sint_word_ariths signed_take_bit_int_eq_self)

lemma init_cycles:
  assumes "\<not> inited s" "sint (init_stage s) = int j" "j + ready_cycles X N cs s \<le> 10"
  shows "list_all (\<lambda>r. r = - 1) (fst (ins_cycles X N cs s))
     \<and> published (snd (ins_cycles X N cs s)) = published s
     \<and> \<not> inited (snd (ins_cycles X N cs s))
     \<and> sint (init_stage (snd (ins_cycles X N cs s))) = int (j + ready_cycles X N cs s)"
  using assms
proof (induction cs arbitrary: s j)
  case Nil
  then show ?case by simp
next
  case (Cons c cs)
  obtain fr od inp where c: "c = (fr, od, inp)"
    by (cases c) auto
  let ?s' = "snd (updateAttitudeINSGPS X N fr od inp s)"
  let ?j' = "if ins_ready fr od inp s then Suc j else j"
  have j: "j \<le> 10"
    using Cons.prems(3) by simp
  have st: "sint (init_stage ?s') = int ?j'"
    using Cons.prems(1,2) j by (simp add: not_inited_step(3) sint_stage_Suc)
  have le: "?j' + ready_cycles X N cs ?s' \<le> 10"
    using Cons.prems(3) by (auto simp add: c split: if_splits)
  have "?j' \<le> 10"
    using le by linarith
  then have ni: "\<not> inited ?s'"
    using Cons.prems(1,2) st
    by (auto simp add: not_inited_step(4) word_sless_alt sint_stage_Suc split: if_splits)
  have r: "fst (updateAttitudeINSGPS X N fr od inp s) = - 1"
    and p: "published ?s' = published s"
    using Cons.prems(1) by (simp_all add: not_inited_step)
  show ?case
    using Cons.IH [OF ni st le] r p
    by (simp add: c split: prod.splits) (auto simp add: add.commute)
qed

lemma correct_position_exact:
  "PositionActual (ins_correct X od inp s)
     = ned_data (Pos (Nav X (ins_fused_calls X od inp s))) (PositionActual s)"
  "VelocityActual (ins_correct X od inp s)
     = ned_data (Vel (Nav X (ins_fused_calls X od inp s))) (VelocityActual s)"
proof -
  obtain m n v s' where e: "ins_measurements X od inp s = (m, n, v, s')"
    by (metis prod_cases4)
  note f = measurements_fields [OF e]
  show "PositionActual (ins_correct X od inp s)
     = ned_data (Pos (Nav X (ins_fused_calls X od inp s))) (PositionActual s)"
    by (cases "m = 0") (simp_all add: ins_correct_def ins_fused_calls_def e Let_def f)
  show "VelocityActual (ins_correct X od inp s)
     = ned_data (Vel (Nav X (ins_fused_calls X od inp s))) (VelocityActual s)"
    by (cases "m = 0") (simp_all add: ins_correct_def ins_fused_calls_def e Let_def f)
qed

lemma ned_data_fields:
  "North (ned_data v d) = fst v" "East (ned_data v d) = fst (snd v)"
  "Down (ned_data v d) = snd (snd v)"
  by (simp_all add: ned_data_def split: prod.splits)

lemma running_cycle:
  assumes "inited s" "gyro_rx inp" "accel_rx inp"
  shows "fst (updateAttitudeINSGPS X N False od inp s) = 0"
    and "attitude_q (AttitudeActual (snd (updateAttitudeINSGPS X N False od inp s)))
        = q (Nav X (ins s @ [INSStatePrediction (gyros_rad (Gyros inp) (GyrosBias s)) (Accels inp)
                               (ins_dT inp)]))"
    and "GyrosBias (snd (updateAttitudeINSGPS X N False od inp s))
        = gyro_bias (Nav X (ins s @ [INSStatePrediction (gyros_rad (Gyros inp) (GyrosBias s))
                               (Accels inp) (ins_dT inp)]))"
    and "North (PositionActual (snd (updateAttitudeINSGPS X N False od inp s)))
        = fst (Pos (Nav X (ins_fused_calls X od inp (ins_predict X inp (ins_flags od inp s)))))"
    and "East (PositionActual (snd (updateAttitudeINSGPS X N False od inp s)))
        = fst (snd (Pos (Nav X (ins_fused_calls X od inp (ins_predict X inp (ins_flags od inp s))))))"
    and "Down (PositionActual (snd (updateAttitudeINSGPS X N False od inp s)))
        = snd (snd (Pos (Nav X (ins_fused_calls X od inp (ins_predict X inp (ins_flags od inp s))))))"
    and "North (VelocityActual (snd (updateAttitudeINSGPS X N False od inp s)))
        = fst (Vel (Nav X (ins_fused_calls X od inp (ins_predict X inp (ins_flags od inp s)))))"
    and "East (VelocityActual (snd (updateAttitudeINSGPS X N False od inp s)))
        = fst (snd (Vel (Nav X (ins_fused_calls X od inp (ins_predict X inp (ins_flags od inp s))))))"
    and "Down (VelocityActual (snd (updateAttitudeINSGPS X N False od inp s)))
        = snd (snd (Vel (Nav X (ins_fused_calls X od inp (ins_predict X inp (ins_flags od inp s))))))"
proof -
  have e: "s\<lparr>inited := True\<rparr> = s"
    using assms(1) by (cases s) auto
  have "updateAttitudeINSGPS X N False od inp s
      = (0, ins_correct X od inp (ins_predict X inp (ins_flags od inp (s\<lparr>inited := True\<rparr>))))"
    using assms by (simp add: updateAttitudeINSGPS_def Let_def ins_running_step_def)
  then have u: "updateAttitudeINSGPS X N False od inp s
      = (0, ins_correct X od inp (ins_predict X inp (ins_flags od inp s)))"
    by (simp only: e)
  show "fst (updateAttitudeINSGPS X N False od inp s) = 0"
    by (simp add: u)
  show "attitude_q (AttitudeActual (snd (updateAttitudeINSGPS X N False od inp s)))
        = q (Nav X (ins s @ [INSStatePrediction (gyros_rad (Gyros inp) (GyrosBias s)) (Accels inp)
                               (ins_dT inp)]))"
    by (simp add: u correct_fields)
  show "GyrosBias (snd (updateAttitudeINSGPS X N False od inp s))
        = gyro_bias (Nav X (ins s @ [INSStatePrediction (gyros_rad (Gyros inp) (GyrosBias s))
                               (Accels inp) (ins_dT inp)]))"
    by (simp add: u correct_fields)
  show "North (PositionActual (snd (updateAttitudeINSGPS X N False od inp s)))
        = fst (Pos (Nav X (ins_fused_calls X od inp (ins_predict X inp (ins_flags od inp s)))))"
    "East (PositionActual (snd (updateAttitudeINSGPS X N False od inp s)))
        = fst (snd (Pos (Nav X (ins_fused_calls X od inp (ins_predict X inp (ins_flags od inp s))))))"
    "Down (PositionActual (snd (updateAttitudeINSGPS X N False od inp s)))
        = snd (snd (Pos (Nav X (ins_fused_calls X od inp (ins_predict X inp (ins_flags od inp s))))))"
    "North (VelocityActual (snd (updateAttitudeINSGPS X N False od inp s)))
        = fst (Vel (Nav X (ins_fused_calls X od inp (ins_predict X inp (ins_flags od inp s)))))"
    "East (VelocityActual (snd (updateAttitudeINSGPS X N False od inp s)))
        = fst (snd (Vel (Nav X (ins_fused_calls X od inp (ins_predict X inp (ins_flags od inp s))))))"
    "Down (VelocityActual (snd (updateAttitudeINSGPS X N False od inp s)))
        = snd (snd (Vel (Nav X (ins_fused_calls X od inp (ins_predict X inp (ins_flags od inp s))))))"
    by (simp_all add: u correct_position_exact ned_data_fields)
qed

text \<open>
  From the power-on values of the stage counter (0) and of \<^verbatim>\<open>inited\<close> (false). A call is
  ready when gyro and accel deliver and the magnetometer, the barometer and (outdoors) a
  qualifying fix have each been seen in this call or in an earlier one. Over any sequence of
  calls of which at most ten were ready, every call returns -1, the attitude, bias,
  position and velocity objects stay as they were, the filter stays uninitialised and the
  counter equals the number of ready calls. One more ready call still returns -1 and
  publishes nothing, adds one to the counter, and leaves the filter initialised exactly
  when it was the eleventh. The next call in which gyro and accel deliver then returns 0
  and publishes the attitude and the bias of the engine after its prediction, and the
  position and the velocity of the engine after its correction.
\<close>

theorem power_on_staged_init:
  assumes "init_stage s = 0" and "\<not> inited s"
    and "ready_cycles X N cs s \<le> 10"
    and "s1 = snd (ins_cycles X N cs s)"
    and "ins_ready fr od inp s1"
    and "s2 = snd (updateAttitudeINSGPS X N fr od inp s1)"
    and "gyro_rx inp'" and "accel_rx inp'"
    and "s3 = snd (updateAttitudeINSGPS X N False od' inp' s2)"
    and "calls = ins_fused_calls X od' inp' (ins_predict X inp' (ins_flags od' inp' s2))"
  shows "list_all (\<lambda>r. r = - 1) (fst (ins_cycles X N cs s))
     \<and> published s1 = published s \<and> \<not> inited s1
     \<and> sint (init_stage s1) = int (ready_cycles X N cs s)
     \<and> fst (updateAttitudeINSGPS X N fr od inp s1) = - 1
     \<and> published s2 = published s
     \<and> sint (init_stage s2) = int (ready_cycles X N cs s) + 1
     \<and> inited s2 = (ready_cycles X N cs s = 10)
     \<and> (ready_cycles X N cs s = 10 \<longrightarrow>
          fst (updateAttitudeINSGPS X N False od' inp' s2) = 0
          \<and> attitude_q (AttitudeActual s3)
              = q (Nav X (ins s2 @ [INSStatePrediction (gyros_rad (Gyros inp') (GyrosBias s2))
                                      (Accels inp') (ins_dT inp')]))
          \<and> GyrosBias s3
              = gyro_bias (Nav X (ins s2 @ [INSStatePrediction (gyros_rad (Gyros inp') (GyrosBias s2))
                                      (Accels inp') (ins_dT inp')]))
          \<and> North (PositionActual s3) = fst (Pos (Nav X calls))
          \<and> East (PositionActual s3) = fst (snd (Pos (Nav X calls)))
          \<and> Down (PositionActual s3) = snd (snd (Pos (Nav X calls)))
          \<and> North (VelocityActual s3) = fst (Vel (Nav X calls))
          \<and> East (VelocityActual s3) = fst (snd (Vel (Nav X calls)))
          \<and> Down (VelocityActual s3) = snd (snd (Vel (Nav X calls))))"
proof -
  have z: "sint (init_stage s) = int 0"
    using assms(1) by simp
  have le: "0 + ready_cycles X N cs s \<le> 10"
    using assms(3) by simp
  note a = init_cycles [OF assms(2) z le, folded assms(4)]
  have n1: "\<not> inited s1" and st: "sint (init_stage s1) = int (ready_cycles X N cs s)"
    using a by simp_all
  have b: "fst (updateAttitudeINSGPS X N fr od inp s1) = - 1"
    "published s2 = published s1"
    "sint (init_stage s2) = int (ready_cycles X N cs s) + 1"
    "inited s2 = (ready_cycles X N cs s = 10)"
    using assms(3,5) st sint_stage_Suc [OF st assms(3)]
    unfolding assms(6)
    by (auto simp add: not_inited_step [OF n1] word_sless_alt)
  have c: "fst (updateAttitudeINSGPS X N False od' inp' s2) = 0
          \<and> attitude_q (AttitudeActual s3)
              = q (Nav X (ins s2 @ [INSStatePrediction (gyros_rad (Gyros inp') (GyrosBias s2))
                                      (Accels inp') (ins_dT inp')]))
          \<and> GyrosBias s3
              = gyro_bias (Nav X (ins s2 @ [INSStatePrediction (gyros_rad (Gyros inp') (GyrosBias s2))
                                      (Accels inp') (ins_dT inp')]))
          \<and> North (PositionActual s3) = fst (Pos (Nav X calls))
          \<and> East (PositionActual s3) = fst (snd (Pos (Nav X calls)))
          \<and> Down (PositionActual s3) = snd (snd (Pos (Nav X calls)))
          \<and> North (VelocityActual s3) = fst (Vel (Nav X calls))
          \<and> East (VelocityActual s3) = fst (snd (Vel (Nav X calls)))
          \<and> Down (VelocityActual s3) = snd (snd (Vel (Nav X calls)))"
    if i: "inited s2"
    unfolding assms(9,10) using running_cycle [OF i assms(7,8), of X N od'] by simp
  show ?thesis
    using a b c by simp
qed

lemma ins_ready_indoor:
  "gyro_rx inp \<Longrightarrow> accel_rx inp \<Longrightarrow> mag_rx inp \<Longrightarrow> baro_rx inp \<Longrightarrow> ins_ready fr False inp s"
  by (simp add: ins_ready_def ins_flags_def Let_def AlarmsSet_def AlarmsClear_def)

lemma ready_cycles_replicate:
  "gyro_rx inp \<Longrightarrow> accel_rx inp \<Longrightarrow> mag_rx inp \<Longrightarrow> baro_rx inp \<Longrightarrow>
   ready_cycles X N (replicate n (fr, False, inp)) s = n"
  by (induction n arbitrary: s) (simp_all add: ins_ready_indoor)

text \<open>
  Ten indoor cycles with all four sensors from power-on, then an eleventh and a twelfth:
  the counter is 10 and the filter uninitialised, then 11 and initialised with nothing
  published, then the call returns 0.
\<close>

theorem power_on_staged_init_witness:
  "init_stage power_on = 0 \<and> \<not> inited power_on
   \<and> ready_cycles test_externals zeros (replicate 10 (False, False, ready_indoor)) power_on = 10
   \<and> ins_ready False False ready_indoor
        (snd (ins_cycles test_externals zeros (replicate 10 (False, False, ready_indoor)) power_on))
   \<and> gyro_rx ready_indoor \<and> accel_rx ready_indoor
   \<and> list_all (\<lambda>r. r = - 1)
        (fst (ins_cycles test_externals zeros (replicate 10 (False, False, ready_indoor)) power_on))
   \<and> \<not> inited (snd (ins_cycles test_externals zeros (replicate 10 (False, False, ready_indoor))
                      power_on))
   \<and> sint (init_stage (snd (ins_cycles test_externals zeros
                              (replicate 10 (False, False, ready_indoor)) power_on))) = 10
   \<and> inited (snd (updateAttitudeINSGPS test_externals zeros False False ready_indoor
        (snd (ins_cycles test_externals zeros (replicate 10 (False, False, ready_indoor)) power_on))))
   \<and> sint (init_stage (snd (updateAttitudeINSGPS test_externals zeros False False ready_indoor
        (snd (ins_cycles test_externals zeros (replicate 10 (False, False, ready_indoor))
           power_on))))) = 11
   \<and> published (snd (updateAttitudeINSGPS test_externals zeros False False ready_indoor
        (snd (ins_cycles test_externals zeros (replicate 10 (False, False, ready_indoor))
           power_on)))) = published power_on
   \<and> fst (updateAttitudeINSGPS test_externals zeros False False ready_indoor
        (snd (updateAttitudeINSGPS test_externals zeros False False ready_indoor
          (snd (ins_cycles test_externals zeros (replicate 10 (False, False, ready_indoor))
             power_on))))) = 0"
proof -
  have rx: "gyro_rx ready_indoor" "accel_rx ready_indoor" "mag_rx ready_indoor"
    "baro_rx ready_indoor"
    by (simp_all add: ready_indoor_def)
  have n: "ready_cycles test_externals zeros (replicate 10 (False, False, ready_indoor)) power_on = 10"
    by (simp add: ready_cycles_replicate rx)
  have p: "init_stage power_on = 0" "\<not> inited power_on"
    by (simp_all add: power_on_def)
  have le: "ready_cycles test_externals zeros (replicate 10 (False, False, ready_indoor)) power_on
              \<le> 10"
    by (simp add: n)
  show ?thesis
    using power_on_staged_init [OF p le refl ins_ready_indoor [OF rx] refl rx(1,2) refl refl,
        of False False]
    by (simp add: n p rx ins_ready_indoor)
qed


lemma word_of_sint: "sint (w :: 32 word) = 11 \<Longrightarrow> w = 11"
  by (rule signed_word_eqI) simp

lemma initialised_indoor_state:
  "inited (initialised_indoor X N)" "init_stage (initialised_indoor X N) = 11"
  "published (initialised_indoor X N) = published power_on"
proof -
  let ?cs = "replicate 10 (False, False, ready_indoor)"
  let ?s10 = "snd (ins_cycles X N ?cs power_on)"
  have rx: "gyro_rx ready_indoor" "accel_rx ready_indoor" "mag_rx ready_indoor"
    "baro_rx ready_indoor"
    by (simp_all add: ready_indoor_def)
  have n: "ready_cycles X N ?cs power_on = 10"
    by (simp add: ready_cycles_replicate rx)
  have p: "\<not> inited power_on" "sint (init_stage power_on) = int 0"
    by (simp_all add: power_on_def)
  have le: "0 + ready_cycles X N ?cs power_on \<le> 10"
    by (simp add: n)
  note a = init_cycles [OF p le]
  have ni: "\<not> inited ?s10" and st: "sint (init_stage ?s10) = int 10"
    and pu: "published ?s10 = published power_on"
    using a by (simp_all add: n)
  have r: "ins_ready False False ready_indoor ?s10"
    by (rule ins_ready_indoor [OF rx])
  have s11: "sint (init_stage (initialised_indoor X N)) = 11"
    unfolding initialised_indoor_def not_inited_step(3) [OF ni]
    using r sint_stage_Suc [OF st] by simp
  show "init_stage (initialised_indoor X N) = 11"
    by (rule word_of_sint [OF s11])
  show "inited (initialised_indoor X N)"
    unfolding initialised_indoor_def not_inited_step(4) [OF ni]
    using r sint_stage_Suc [OF st] by (simp add: word_sless_alt)
  show "published (initialised_indoor X N) = published power_on"
    unfolding initialised_indoor_def not_inited_step(2) [OF ni] by (rule pu)
qed

lemma switched_back_state:
  "\<not> inited (switched_back X N od)" "init_stage (switched_back X N od) = 11"
  "fst (updateAttitudeINSGPS X N True od quiet (initialised_indoor X N)) = - 1"
  "published (switched_back X N od) = published power_on"
proof -
  have e: "updateAttitudeINSGPS X N True od quiet (initialised_indoor X N)
      = (- 1, AlarmsSet SYSTEMALARMS_ALARM_WARNING ((initialised_indoor X N)\<lparr>inited := False\<rparr>))"
    by (simp add: updateAttitudeINSGPS_def Let_def quiet_def)
  show "\<not> inited (switched_back X N od)"
    by (simp add: switched_back_def e AlarmsSet_def)
  show "init_stage (switched_back X N od) = 11"
    by (simp add: switched_back_def e AlarmsSet_def initialised_indoor_state)
  show "fst (updateAttitudeINSGPS X N True od quiet (initialised_indoor X N)) = - 1"
    by (simp add: e)
  have "published (switched_back X N od) = published (initialised_indoor X N)"
    by (simp add: switched_back_def e AlarmsSet_def published_def)
  then show "published (switched_back X N od) = published power_on"
    by (simp add: initialised_indoor_state)
qed

lemma late_ready_step:
  assumes "\<not> inited s" "init_stage s = 11" "gyro_rx inp" "accel_rx inp" "mag_rx inp" "baro_rx inp"
  shows "fst (updateAttitudeINSGPS X N fr False inp s) = - 1"
    and "init_stage (snd (updateAttitudeINSGPS X N fr False inp s)) = 12"
    and "inited (snd (updateAttitudeINSGPS X N fr False inp s))"
    and "ins (snd (updateAttitudeINSGPS X N fr False inp s))
       = ins s @ [INSStatePrediction (gyros_rad (Gyros inp) (GyrosBias s)) (Accels inp) (Fin 0.002)]"
    and "published (snd (updateAttitudeINSGPS X N fr False inp s)) = published s"
proof -
  have e: "s\<lparr>inited := False\<rparr> = s"
    using assms(1) by (cases s) auto
  let ?f = "ins_flags False inp s"
  have f: "mag_updated ?f" "baro_updated ?f" "\<not> inited ?f" "init_stage ?f = 11"
    using assms by (simp_all add: ins_flags_def Let_def AlarmsSet_def AlarmsClear_def)
  have "updateAttitudeINSGPS X N fr False inp s
      = (- 1, ins_init_step X N False inp (ins_flags False inp (s\<lparr>inited := False\<rparr>)))"
    using f assms by (simp add: updateAttitudeINSGPS_def Let_def e)
  then have g: "updateAttitudeINSGPS X N fr False inp s = (- 1, ins_init_step X N False inp ?f)"
    by (simp only: e)
  have h: "ins (ins_init_step X N False inp ?f)
      = ins ?f @ [INSStatePrediction (gyros_rad (Gyros inp) (GyrosBias ?f)) (Accels inp) (Fin 0.002)]"
    using f(4) by (simp add: ins_init_step_def Let_def word_sless_alt)
  show "fst (updateAttitudeINSGPS X N fr False inp s) = - 1"
    by (simp add: g)
  show "init_stage (snd (updateAttitudeINSGPS X N fr False inp s)) = 12"
    using assms(2) by (simp add: g init_step_stage)
  show "inited (snd (updateAttitudeINSGPS X N fr False inp s))"
    using assms(2) by (simp add: g init_step_stage)
  show "ins (snd (updateAttitudeINSGPS X N fr False inp s))
       = ins s @ [INSStatePrediction (gyros_rad (Gyros inp) (GyrosBias s)) (Accels inp) (Fin 0.002)]"
    by (simp add: g h)
  show "published (snd (updateAttitudeINSGPS X N fr False inp s)) = published s"
    by (simp add: g published_def init_step_published)
qed

text \<open>
  C5. The claim has an uninitialised filter return -1 and publish nothing until eleven
  cycles with all required sensors present have completed. That holds from power-on. A call
  with \<^verbatim>\<open>first_run\<close> = true makes the filter uninitialised again (line 467) and leaves the
  stage counter where it was. After eleven indoor cycles from power-on the filter is
  initialised with the counter at 11 and nothing published. A \<^verbatim>\<open>first_run\<close> call whose gyro
  queue times out, in either mode, returns -1 and leaves the filter uninitialised with the
  counter at 11. A single indoor cycle with all four sensors present then returns -1,
  publishes nothing, has the engine predict once without any reset, and sets \<^verbatim>\<open>inited\<close>
  with the counter at 12. The call after it returns 0 and publishes the attitude and the
  position of the engine: one cycle after the filter became uninitialised, not eleven.
\<close>

theorem reinit_after_one_cycle:
  "inited (initialised_indoor X N) \<and> init_stage (initialised_indoor X N) = 11
   \<and> published (initialised_indoor X N) = published power_on
   \<and> fst (updateAttitudeINSGPS X N True od quiet (initialised_indoor X N)) = - 1
   \<and> \<not> inited (switched_back X N od) \<and> init_stage (switched_back X N od) = 11
   \<and> published (switched_back X N od) = published power_on
   \<and> fst (updateAttitudeINSGPS X N fr False ready_indoor (switched_back X N od)) = - 1
   \<and> published (resumed X N od fr) = published power_on
   \<and> inited (resumed X N od fr) \<and> init_stage (resumed X N od fr) = 12
   \<and> ins (resumed X N od fr)
       = ins (switched_back X N od)
           @ [INSStatePrediction (gyros_rad (Gyros ready_indoor) (GyrosBias (switched_back X N od)))
                (Accels ready_indoor) (Fin 0.002)]
   \<and> fst (updateAttitudeINSGPS X N False False ready_indoor (resumed X N od fr)) = 0
   \<and> attitude_q (AttitudeActual (snd (updateAttitudeINSGPS X N False False ready_indoor
                                        (resumed X N od fr))))
       = q (Nav X (ins (resumed X N od fr)
                     @ [INSStatePrediction
                          (gyros_rad (Gyros ready_indoor) (GyrosBias (resumed X N od fr)))
                          (Accels ready_indoor) (ins_dT ready_indoor)]))
   \<and> North (PositionActual (snd (updateAttitudeINSGPS X N False False ready_indoor
                                    (resumed X N od fr))))
       = fst (Pos (Nav X (ins_fused_calls X False ready_indoor
                            (ins_predict X ready_indoor
                               (ins_flags False ready_indoor (resumed X N od fr))))))"
proof -
  have rx: "gyro_rx ready_indoor" "accel_rx ready_indoor" "mag_rx ready_indoor"
    "baro_rx ready_indoor"
    by (simp_all add: ready_indoor_def)
  note l = late_ready_step [OF switched_back_state(1,2) rx,
      where X1 = X and N1 = N and od1 = od and X = X and N = N and fr = fr, folded resumed_def]
  note r = running_cycle [OF l(3) rx(1,2), of X N False]
  show ?thesis
    by (simp add: initialised_indoor_state switched_back_state l r(1,2,4))
qed

section \<open>The complementary filter\<close>

lemma gain_fields [simp]:
  "AttitudeActual (gain_scheduling fr inp s) = AttitudeActual s"
  "GyrosBias (gain_scheduling fr inp s) = GyrosBias s"
  by (simp_all add: gain_scheduling_def Let_def)

lemma publish_more_fields [simp]:
  "mag_err (publish_attitude X qq s) = mag_err s"
  "Alarm_ATTITUDE (publish_attitude X qq s) = Alarm_ATTITUDE s"
  by (simp_all add: publish_attitude_def split: prod.splits)

lemma passthrough_fields [simp]:
  "AttitudeActual (gps_passthrough N inp s) = AttitudeActual s"
  "GyrosBias (gps_passthrough N inp s) = GyrosBias s"
  "mag_err (gps_passthrough N inp s) = mag_err s"
  by (simp_all add: gps_passthrough_def Let_def)

lemma complementary_result:
  assumes "gyro_rx inp" "accel_rx inp"
  shows "fst (updateAttitudeComplimentary X N fr inp s) = 0"
    and "Alarm_ATTITUDE (snd (updateAttitudeComplimentary X N fr inp s)) = SYSTEMALARMS_ALARM_OK"
    and "mag_err (snd (updateAttitudeComplimentary X N fr inp s))
           = mag_error X (\<not> mag_rx inp) (attitude_q (AttitudeActual s)) (Magnetometer inp)
               (Be (HomeLocation inp))"
    and "GyrosBias (snd (updateAttitudeComplimentary X N fr inp s))
           = integrate_bias (accel_error (Accels inp) (attitude_q (AttitudeActual s)))
               (mag_error X (\<not> mag_rx inp) (attitude_q (AttitudeActual s)) (Magnetometer inp)
                  (Be (HomeLocation inp)))
               (AccelKi (attitudeSettings (gain_scheduling fr inp s))) (GyrosBias s)"
    and "attitude_q (AttitudeActual (snd (updateAttitudeComplimentary X N fr inp s)))
           = quat_renormalize
               (quat_positive (quat_step (attitude_q (AttitudeActual s))
                  (correct_rates (accel_error (Accels inp) (attitude_q (AttitudeActual s)))
                     (mag_error X (\<not> mag_rx inp) (attitude_q (AttitudeActual s)) (Magnetometer inp)
                        (Be (HomeLocation inp)))
                     (AccelKp (attitudeSettings (gain_scheduling fr inp s)))
                     (of_u32 (DELAY_DiffuS inp) / Fin 1000000) (Gyros inp))
                  (of_u32 (DELAY_DiffuS inp) / Fin 1000000)))
               (quat_mag (quat_positive (quat_step (attitude_q (AttitudeActual s))
                  (correct_rates (accel_error (Accels inp) (attitude_q (AttitudeActual s)))
                     (mag_error X (\<not> mag_rx inp) (attitude_q (AttitudeActual s)) (Magnetometer inp)
                        (Be (HomeLocation inp)))
                     (AccelKp (attitudeSettings (gain_scheduling fr inp s)))
                     (of_u32 (DELAY_DiffuS inp) / Fin 1000000) (Gyros inp))
                  (of_u32 (DELAY_DiffuS inp) / Fin 1000000))))"
  using assms
  by (simp_all add: updateAttitudeComplimentary_def Let_def AlarmsClear_def)

lemma nan_absorbs [simp]:
  "NaN * x = NaN" "x * NaN = NaN" "NaN + x = NaN" "x + NaN = NaN"
  "NaN / x = NaN" "x / NaN = NaN" "NaN - x = NaN" "x - NaN = NaN"
  by (cases x; simp add: minus_cfloat_def)+

lemma accel_error_zero: "accel_error (Fin 0, Fin 0, Fin 0) qq = (NaN, NaN, NaN)"
proof -
  obtain g0 g1 g2 where g: "gravity_body qq = (g0, g1, g2)"
    by (cases "gravity_body qq") auto
  show ?thesis
    unfolding accel_error_def g
    by (cases g0; cases g1; cases g2)
       (simp_all add: CrossProduct_def vec_div_def vec_len_def minus_cfloat_def)
qed

lemma nan_rates_reset:
  "quat_renormalize
     (quat_positive (quat_step qq (correct_rates (NaN, NaN, NaN) m Kp dT g) dT))
     (quat_mag (quat_positive (quat_step qq (correct_rates (NaN, NaN, NaN) m Kp dT g) dT)))
   = (Fin 1, Fin 0, Fin 0, Fin 0)"
  by (cases qq; cases m; cases g)
     (simp add: correct_rates_def quat_step_def quat_positive_def quat_mag_def
        quat_renormalize_def fne_def)

text \<open>
  C4. The claim has the division by the accel magnitude guarded. The code divides
  (lines 308-310) without a test: for the zero acceleration vector the magnitude is 0, the
  three error components are NaN, the call still returns 0, the x and y components of the
  published gyro bias are NaN, and the attitude is reinitialised to the identity.
\<close>

theorem zero_accel_unguarded:
  "vec_len (Fin 0, Fin 0, Fin 0) = Fin 0
   \<and> accel_error (Fin 0, Fin 0, Fin 0) qq = (NaN, NaN, NaN)
   \<and> fst (updateAttitudeComplimentary X N fr
        (inp\<lparr>gyro_rx := True, accel_rx := True, Accels := (Fin 0, Fin 0, Fin 0)\<rparr>) s) = 0
   \<and> fst (GyrosBias (snd (updateAttitudeComplimentary X N fr
        (inp\<lparr>gyro_rx := True, accel_rx := True, Accels := (Fin 0, Fin 0, Fin 0)\<rparr>) s))) = NaN
   \<and> fst (snd (GyrosBias (snd (updateAttitudeComplimentary X N fr
        (inp\<lparr>gyro_rx := True, accel_rx := True, Accels := (Fin 0, Fin 0, Fin 0)\<rparr>) s)))) = NaN
   \<and> attitude_q (AttitudeActual (snd (updateAttitudeComplimentary X N fr
        (inp\<lparr>gyro_rx := True, accel_rx := True, Accels := (Fin 0, Fin 0, Fin 0)\<rparr>) s)))
       = (Fin 1, Fin 0, Fin 0, Fin 0)"
  by (simp add: complementary_result accel_error_zero nan_rates_reset integrate_bias_def vec_len_def
      split: prod.splits)

text \<open>
  C2. The claim has the yaw error computed when a magnetometer sample arrived and zero
  otherwise. The code tests \<^verbatim>\<open>xQueueReceive(magQueue, ...) != pdTRUE\<close> (line 312): in a
  cycle in which a sample arrived the error is zero; in the example cycle the cross product
  of the normalised reading and the normalised rotated home field is (0, 0, 1), and the code
  leaves zero when the sample arrived and (0, 0, 1) when none arrived.
\<close>

theorem mag_test_inverted:
  "mag_err (snd (updateAttitudeComplimentary X N fr
       (inp\<lparr>gyro_rx := True, accel_rx := True, mag_rx := True\<rparr>) s)) = (Fin 0, Fin 0, Fin 0)
   \<and> mag_err (snd (updateAttitudeComplimentary test_externals zeros False
       (mag_cycle\<lparr>mag_rx := True\<rparr>) power_on)) = (Fin 0, Fin 0, Fin 0)
   \<and> CrossProduct (vec_div (Magnetometer mag_cycle) (vec_len (Magnetometer mag_cycle)))
       (vec_div (rot_mult test_externals
                   (Quaternion2R test_externals (attitude_q (AttitudeActual power_on)))
                   (Be (HomeLocation mag_cycle)))
          (vec_len (rot_mult test_externals
                   (Quaternion2R test_externals (attitude_q (AttitudeActual power_on)))
                   (Be (HomeLocation mag_cycle)))))
       = (Fin 0, Fin 0, Fin 1)
   \<and> mag_err (snd (updateAttitudeComplimentary test_externals zeros False
       (mag_cycle\<lparr>mag_rx := False\<rparr>) power_on)) = (Fin 0, Fin 0, Fin 1)"
proof -
  have a: "mag_err (snd (updateAttitudeComplimentary X N fr
       (inp\<lparr>gyro_rx := True, accel_rx := True, mag_rx := True\<rparr>) s)) = (Fin 0, Fin 0, Fin 0)"
    by (simp add: complementary_result mag_error_def zeros_def)
  have c: "CrossProduct (vec_div (Magnetometer mag_cycle) (vec_len (Magnetometer mag_cycle)))
       (vec_div (rot_mult test_externals
                   (Quaternion2R test_externals (attitude_q (AttitudeActual power_on)))
                   (Be (HomeLocation mag_cycle)))
          (vec_len (rot_mult test_externals
                   (Quaternion2R test_externals (attitude_q (AttitudeActual power_on)))
                   (Be (HomeLocation mag_cycle)))))
       = (Fin 0, Fin 0, Fin 1)"
    by (simp add: mag_cycle_def quiet_def test_externals_def zero_home_def vec_len_def vec_div_def
        CrossProduct_def minus_cfloat_def power_on_def attitude_q_def)
  have rx: "gyro_rx (mag_cycle\<lparr>mag_rx := b\<rparr>)" "accel_rx (mag_cycle\<lparr>mag_rx := b\<rparr>)" for b
    by (simp_all add: mag_cycle_def)
  have d: "mag_err (snd (updateAttitudeComplimentary test_externals zeros False
       (mag_cycle\<lparr>mag_rx := False\<rparr>) power_on)) = (Fin 0, Fin 0, Fin 1)"
    unfolding complementary_result(3) [OF rx]
    by (simp add: mag_cycle_def quiet_def mag_error_def zeros_def
      power_on_def attitude_q_def test_externals_def zero_home_def vec_len_def vec_div_def
      CrossProduct_def minus_cfloat_def)
  have b: "mag_err (snd (updateAttitudeComplimentary test_externals zeros False
       (mag_cycle\<lparr>mag_rx := True\<rparr>) power_on)) = (Fin 0, Fin 0, Fin 0)"
    unfolding complementary_result(3) [OF rx]
    by (simp add: mag_error_def zeros_def)
  show ?thesis
    unfolding a b c d by simp
qed

text \<open>
  C1. The claim has every successful cycle publish a quaternion of norm 1 with a
  non-negative first component. The test of line 387 catches a norm that is short or NaN,
  not one that is infinite: from the unit quaternion (0.5, 0.5, -0.5, 0.5), with a gyro
  sample whose x rate is infinite, the norm is infinite, the four components divided by it
  are NaN, and the call returns 0 with the alarm cleared and that quaternion published.
\<close>

theorem infinite_norm_published:
  "attitude_q (AttitudeActual (snd (updateAttitudeComplimentary test_externals zeros False
       inf_gyro_cycle tilted))) = (NaN, NaN, NaN, NaN)
   \<and> qmag (snd (updateAttitudeComplimentary test_externals zeros False inf_gyro_cycle tilted)) = PInf
   \<and> fst (updateAttitudeComplimentary test_externals zeros False inf_gyro_cycle tilted) = 0
   \<and> Alarm_ATTITUDE (snd (updateAttitudeComplimentary test_externals zeros False inf_gyro_cycle tilted))
        = SYSTEMALARMS_ALARM_OK"
proof -
  have rx: "gyro_rx inf_gyro_cycle" "accel_rx inf_gyro_cycle"
    by (simp_all add: inf_gyro_cycle_def)
  have kp: "AccelKp (attitudeSettings (gain_scheduling False inf_gyro_cycle tilted)) = Fin 1"
    by (simp add: gain_scheduling_def inf_gyro_cycle_def tilted_def power_on_def high_gains_def
        quiet_def Let_def)
  have ae: "accel_error (Accels inf_gyro_cycle) (attitude_q (AttitudeActual tilted))
      = (Fin 0, Fin 1, Fin 0)"
    by (simp add: accel_error_def inf_gyro_cycle_def tilted_def attitude_q_def gravity_body_def
        CrossProduct_def vec_div_def vec_len_def minus_cfloat_def)
  have me: "mag_error test_externals (\<not> mag_rx inf_gyro_cycle) qq m b = (Fin 0, Fin 0, Fin 0)"
    for qq m b
    by (simp add: mag_error_def inf_gyro_cycle_def zeros_def)
  have g: "correct_rates (Fin 0, Fin 1, Fin 0) (Fin 0, Fin 0, Fin 0) (Fin 1)
             (of_u32 (DELAY_DiffuS inf_gyro_cycle) / Fin 1000000) (Gyros inf_gyro_cycle)
            = (PInf, Fin 500, Fin 0)"
    by (simp add: correct_rates_def inf_gyro_cycle_def of_u32_def magKp_def)
  have st: "quat_step (attitude_q (AttitudeActual tilted)) (PInf, Fin 500, Fin 0)
              (of_u32 (DELAY_DiffuS inf_gyro_cycle) / Fin 1000000)
            = (NInf, PInf, PInf, PInf)"
    by (simp add: quat_step_def tilted_def attitude_q_def inf_gyro_cycle_def of_u32_def F_PI_def
        minus_cfloat_def)
  have qm: "quat_mag (quat_positive (NInf, PInf, PInf, PInf)) = PInf"
    by (simp add: quat_positive_def quat_mag_def)
  have rn: "quat_renormalize (quat_positive (NInf, PInf, PInf, PInf)) PInf = (NaN, NaN, NaN, NaN)"
    by (simp add: quat_positive_def quat_renormalize_def fne_def)
  have m: "qmag (snd (updateAttitudeComplimentary test_externals zeros False inf_gyro_cycle tilted))
      = quat_mag (quat_positive (quat_step (attitude_q (AttitudeActual tilted))
          (correct_rates (accel_error (Accels inf_gyro_cycle) (attitude_q (AttitudeActual tilted)))
             (mag_error test_externals (\<not> mag_rx inf_gyro_cycle) (attitude_q (AttitudeActual tilted))
                (Magnetometer inf_gyro_cycle) (Be (HomeLocation inf_gyro_cycle)))
             (AccelKp (attitudeSettings (gain_scheduling False inf_gyro_cycle tilted)))
             (of_u32 (DELAY_DiffuS inf_gyro_cycle) / Fin 1000000) (Gyros inf_gyro_cycle))
          (of_u32 (DELAY_DiffuS inf_gyro_cycle) / Fin 1000000)))"
    using rx
    by (simp add: updateAttitudeComplimentary_def Let_def AlarmsClear_def publish_attitude_def
        gps_passthrough_def split: prod.splits)
  show ?thesis
    unfolding m by (simp add: complementary_result [OF rx] kp ae me g st qm rn)
qed

section \<open>Finite inputs\<close>


lemma nice_ops:
  "nice a \<Longrightarrow> nice b \<Longrightarrow> nice (a + b)"
  "nice a \<Longrightarrow> nice b \<Longrightarrow> nice (a - b)"
  "nice a \<Longrightarrow> nice b \<Longrightarrow> nice (a * b)"
  "nice a \<Longrightarrow> nice (- a)"
  "nice a \<Longrightarrow> t \<noteq> 0 \<Longrightarrow> nice (a / Fin t)"
  "nice (Fin r)"
  by (cases a; cases b; simp add: minus_cfloat_def)+

lemma renorm_fin:
  assumes "0 \<le> a"
  shows "\<exists>w x y z. quat_renormalize (Fin a, Fin b, Fin c, Fin d)
                      (quat_mag (Fin a, Fin b, Fin c, Fin d)) = (Fin w, Fin x, Fin y, Fin z)
            \<and> 0 \<le> w \<and> w * w + x * x + y * y + z * z = 1"
proof -
  let ?S = "a * a + b * b + c * c + d * d"
  let ?r = "sqrt ?S"
  have S: "0 \<le> ?S"
    by (simp add: add_nonneg_nonneg)
  have m: "quat_mag (Fin a, Fin b, Fin c, Fin d) = Fin ?r"
    using S by (simp add: quat_mag_def)
  show ?thesis
  proof (cases "\<bar>?r\<bar> < 0.001")
    case True
    then have "quat_renormalize (Fin a, Fin b, Fin c, Fin d) (Fin ?r) = (Fin 1, Fin 0, Fin 0, Fin 0)"
      by (simp add: quat_renormalize_def)
    then show ?thesis
      unfolding m by simp
  next
    case False
    then have "0 \<noteq> ?S"
      by auto
    then have Spos: "0 < ?S"
      using S by (rule order.not_eq_order_implies_strict)
    then have r: "0 < ?r"
      by (rule real_sqrt_gt_zero)
    have rr: "?r * ?r = ?S"
      using S by (rule real_sqrt_mult_self [simplified] | simp)
    have e: "quat_renormalize (Fin a, Fin b, Fin c, Fin d) (Fin ?r)
        = (Fin (a / ?r), Fin (b / ?r), Fin (c / ?r), Fin (d / ?r))"
      using False r by (simp add: quat_renormalize_def fne_def)
    have u: "a / ?r * (a / ?r) + b / ?r * (b / ?r) + c / ?r * (c / ?r) + d / ?r * (d / ?r) = 1"
      using Spos by (simp add: add_divide_distrib [symmetric])
    have "0 \<le> a / ?r"
      using assms r by simp
    then show ?thesis
      unfolding m e using u by blast
  qed
qed

lemma renorm_nan:
  assumes "p0 = NaN \<or> p1 = NaN \<or> p2 = NaN \<or> p3 = NaN"
  shows "quat_renormalize (quat_positive (p0, p1, p2, p3)) (quat_mag (quat_positive (p0, p1, p2, p3)))
           = (Fin 1, Fin 0, Fin 0, Fin 0)"
proof -
  have n: "- x = NaN \<longleftrightarrow> x = NaN" for x :: cfloat
    by (cases x) simp_all
  have s: "sqrtf (a * a + b * b + c * c + d * d) = NaN"
    if "a = NaN \<or> b = NaN \<or> c = NaN \<or> d = NaN" for a b c d
    using that by auto
  have "quat_mag (quat_positive (p0, p1, p2, p3)) = NaN"
    using assms by (auto simp add: quat_positive_def quat_mag_def n intro!: s)
  then show ?thesis
    by (simp add: quat_renormalize_def fne_def split: prod.splits)
qed

lemma renorm_unit:
  assumes "nice p0" "nice p1" "nice p2" "nice p3"
  shows "\<exists>w x y z. quat_renormalize (quat_positive (p0, p1, p2, p3))
                      (quat_mag (quat_positive (p0, p1, p2, p3))) = (Fin w, Fin x, Fin y, Fin z)
            \<and> 0 \<le> w \<and> w * w + x * x + y * y + z * z = 1"
proof (cases "p0 = NaN \<or> p1 = NaN \<or> p2 = NaN \<or> p3 = NaN")
  case True
  show ?thesis
    unfolding renorm_nan [OF True] by simp
next
  case False
  then obtain a b c d where p: "p0 = Fin a" "p1 = Fin b" "p2 = Fin c" "p3 = Fin d"
    using assms by (cases p0; cases p1; cases p2; cases p3) auto
  show ?thesis
  proof (cases "a < 0")
    case True
    then have "quat_positive (p0, p1, p2, p3) = (Fin (- a), Fin (- b), Fin (- c), Fin (- d))"
      by (simp add: quat_positive_def p)
    then show ?thesis
      using renorm_fin [of "- a" "- b" "- c" "- d"] True by simp
  next
    case False
    then have "quat_positive (p0, p1, p2, p3) = (Fin a, Fin b, Fin c, Fin d)"
      by (simp add: quat_positive_def p)
    then show ?thesis
      using renorm_fin [of a b c d] False by simp
  qed
qed

lemma three_squares_zero:
  fixes x y z :: real
  shows "x * x + y * y + z * z = 0 \<longleftrightarrow> x = 0 \<and> y = 0 \<and> z = 0"
proof
  assume h: "x * x + y * y + z * z = 0"
  have "0 \<le> x * x" "0 \<le> y * y" "0 \<le> z * z"
    by simp_all
  then have "x * x = 0 \<and> y * y = 0 \<and> z * z = 0"
    using h by linarith
  then show "x = 0 \<and> y = 0 \<and> z = 0"
    by simp
qed simp

lemma accel_error_nice:
  assumes "accel_error (Fin ax, Fin ay, Fin az) (Fin a, Fin b, Fin c, Fin d) = (e0, e1, e2)"
  shows "nice e0 \<and> nice e1 \<and> nice e2"
proof (cases "ax = 0 \<and> ay = 0 \<and> az = 0")
  case True
  then show ?thesis
    using assms accel_error_zero [of "(Fin a, Fin b, Fin c, Fin d)"] by auto
next
  case False
  then have "ax * ax + ay * ay + az * az \<noteq> 0"
    by (simp add: three_squares_zero)
  then have "sqrt (ax * ax + ay * ay + az * az) \<noteq> 0"
    by simp
  then show ?thesis
    using assms
    by (auto simp add: accel_error_def gravity_body_def CrossProduct_def vec_div_def vec_len_def
        minus_cfloat_def)
qed

lemma mag_error_nice:
  assumes "rot_mult X (Quaternion2R X qq) be = (Fin b0, Fin b1, Fin b2)"
    and "mag_error X nr qq (Fin m0, Fin m1, Fin m2) be = (r0, r1, r2)"
  shows "nice r2"
proof -
  have z: "sqrt v \<noteq> 0" if "\<not> sqrt v < 1" for v :: real
    using that by auto
  show ?thesis
    using assms
    by (auto simp add: mag_error_def Let_def zeros_def CrossProduct_def vec_div_def vec_len_def
        minus_cfloat_def z split: if_splits)
qed

lemma step_zero_dt: "nice (Fin a + x * Fin 0 * F_PI / Fin 180 / Fin 2)"
  by (cases x) (simp_all add: F_PI_def)

lemma step_nice:
  assumes "nice e0" "nice e1" "nice e2" "nice m2"
    and "quat_step (Fin a, Fin b, Fin c, Fin d)
           (correct_rates (e0, e1, e2) (m0, m1, m2) (Fin kp) (Fin t) (Fin gx, Fin gy, Fin gz)) (Fin t)
         = (p0, p1, p2, p3)"
  shows "nice p0 \<and> nice p1 \<and> nice p2 \<and> nice p3"
proof (cases "t = 0")
  case True
  show ?thesis
    using assms(5) unfolding True
    by (auto simp add: quat_step_def correct_rates_def step_zero_dt)
next
  case False
  have g: "nice (Fin g + e * Fin kp / Fin t)" if "nice e" for g e
    using that False by (intro nice_ops)
  have gz: "nice (Fin gz + (e2 * Fin kp / Fin t + m2 * magKp / Fin t))"
    using assms(3,4) False by (intro nice_ops) (simp_all add: magKp_def)
  have sc: "nice (Fin v + u * Fin t * F_PI / Fin 180 / Fin 2)" if "nice u" for u v
    using that by (cases u) (simp_all add: F_PI_def)
  show ?thesis
    using assms(5)
    by (auto simp add: quat_step_def correct_rates_def intro!: sc nice_ops g gz assms(1,2))
qed

lemma gain_kp:
  "AccelKp (attitudeSettings (gain_scheduling fr inp s)) = Fin 1
   \<or> AccelKp (attitudeSettings (gain_scheduling fr inp s)) = AccelKp (AttitudeSettings inp)
   \<or> AccelKp (attitudeSettings (gain_scheduling fr inp s)) = AccelKp (attitudeSettings s)"
  by (simp add: gain_scheduling_def high_gains_def Let_def)

text \<open>
  With the gyro and accel samples delivered, a finite previous quaternion, finite gyro,
  accel and magnetometer readings, a finite rotated home field and finite proportional
  gains, the quaternion the complementary update publishes has four finite components, a
  non-negative first one and norm 1 (the arithmetic on finite values being exact), on the
  renormalisation path and on the path that reinitialises to the identity.
\<close>

theorem finite_inputs_unit_quaternion:
  assumes "gyro_rx inp" and "accel_rx inp"
    and "attitude_q (AttitudeActual s) = (Fin a, Fin b, Fin c, Fin d)"
    and "Gyros inp = (Fin gx, Fin gy, Fin gz)"
    and "Accels inp = (Fin ax, Fin ay, Fin az)"
    and "Magnetometer inp = (Fin m0, Fin m1, Fin m2)"
    and "rot_mult X (Quaternion2R X (attitude_q (AttitudeActual s))) (Be (HomeLocation inp))
           = (Fin b0, Fin b1, Fin b2)"
    and "AccelKp (attitudeSettings s) = Fin k1"
    and "AccelKp (AttitudeSettings inp) = Fin k2"
  shows "\<exists>w x y z.
           attitude_q (AttitudeActual (snd (updateAttitudeComplimentary X N fr inp s)))
             = (Fin w, Fin x, Fin y, Fin z)
           \<and> 0 \<le> w \<and> w * w + x * x + y * y + z * z = 1"
proof -
  obtain kp where kp: "AccelKp (attitudeSettings (gain_scheduling fr inp s)) = Fin kp"
    using gain_kp [of fr inp s] assms(8,9) by auto
  obtain e0 e1 e2 where e: "accel_error (Accels inp) (Fin a, Fin b, Fin c, Fin d) = (e0, e1, e2)"
    by (metis prod_cases3)
  obtain r0 r1 r2 where r: "mag_error X (\<not> mag_rx inp) (Fin a, Fin b, Fin c, Fin d)
      (Magnetometer inp) (Be (HomeLocation inp)) = (r0, r1, r2)"
    by (metis prod_cases3)
  have ne: "nice e0" "nice e1" "nice e2"
    using accel_error_nice [OF e [unfolded assms(5)]] by simp_all
  have nr: "nice r2"
    using mag_error_nice [OF assms(7) [unfolded assms(3)] r [unfolded assms(6)]] .
  have dt: "of_u32 (DELAY_DiffuS inp) / Fin 1000000 = Fin (real (unat (DELAY_DiffuS inp)) / 1000000)"
    by (simp add: of_u32_def)
  obtain p0 p1 p2 p3 where p:
    "quat_step (Fin a, Fin b, Fin c, Fin d)
       (correct_rates (e0, e1, e2) (r0, r1, r2) (Fin kp)
          (Fin (real (unat (DELAY_DiffuS inp)) / 1000000)) (Fin gx, Fin gy, Fin gz))
       (Fin (real (unat (DELAY_DiffuS inp)) / 1000000)) = (p0, p1, p2, p3)"
    by (metis prod_cases4)
  have np: "nice p0" "nice p1" "nice p2" "nice p3"
    using step_nice [OF ne nr p] by simp_all
  show ?thesis
    unfolding complementary_result(5) [OF assms(1,2)] assms(3)
    unfolding e r kp dt assms(4) p
    by (rule renorm_unit [OF np])
qed

theorem finite_inputs_unit_quaternion_witness:
  "gyro_rx (mag_cycle\<lparr>mag_rx := True\<rparr>) \<and> accel_rx (mag_cycle\<lparr>mag_rx := True\<rparr>)
   \<and> attitude_q (AttitudeActual power_on) = (Fin 1, Fin 0, Fin 0, Fin 0)
   \<and> Gyros (mag_cycle\<lparr>mag_rx := True\<rparr>) = (Fin 0, Fin 0, Fin 0)
   \<and> Accels (mag_cycle\<lparr>mag_rx := True\<rparr>) = (Fin 0, Fin 0, Fin (- 1))
   \<and> Magnetometer (mag_cycle\<lparr>mag_rx := True\<rparr>) = (Fin 1, Fin 0, Fin 0)
   \<and> rot_mult test_externals (Quaternion2R test_externals (attitude_q (AttitudeActual power_on)))
        (Be (HomeLocation (mag_cycle\<lparr>mag_rx := True\<rparr>))) = (Fin 0, Fin 1, Fin 0)
   \<and> AccelKp (attitudeSettings power_on) = Fin 0
   \<and> AccelKp (AttitudeSettings (mag_cycle\<lparr>mag_rx := True\<rparr>)) = Fin 0
   \<and> (\<exists>w x y z.
         attitude_q (AttitudeActual (snd (updateAttitudeComplimentary test_externals zeros False
            (mag_cycle\<lparr>mag_rx := True\<rparr>) power_on))) = (Fin w, Fin x, Fin y, Fin z)
         \<and> 0 \<le> w \<and> w * w + x * x + y * y + z * z = 1)"
proof -
  have h: "gyro_rx (mag_cycle\<lparr>mag_rx := True\<rparr>)" "accel_rx (mag_cycle\<lparr>mag_rx := True\<rparr>)"
    "attitude_q (AttitudeActual power_on) = (Fin 1, Fin 0, Fin 0, Fin 0)"
    "Gyros (mag_cycle\<lparr>mag_rx := True\<rparr>) = (Fin 0, Fin 0, Fin 0)"
    "Accels (mag_cycle\<lparr>mag_rx := True\<rparr>) = (Fin 0, Fin 0, Fin (- 1))"
    "Magnetometer (mag_cycle\<lparr>mag_rx := True\<rparr>) = (Fin 1, Fin 0, Fin 0)"
    "rot_mult test_externals (Quaternion2R test_externals (attitude_q (AttitudeActual power_on)))
        (Be (HomeLocation (mag_cycle\<lparr>mag_rx := True\<rparr>))) = (Fin 0, Fin 1, Fin 0)"
    "AccelKp (attitudeSettings power_on) = Fin 0"
    "AccelKp (AttitudeSettings (mag_cycle\<lparr>mag_rx := True\<rparr>)) = Fin 0"
    by (simp_all add: mag_cycle_def quiet_def power_on_def attitude_q_def zeros_def
        test_externals_def zero_home_def zero_settings_def minus_cfloat_def)
  show ?thesis
    using finite_inputs_unit_quaternion [OF h, of zeros False] h by simp
qed

text \<open>
  For a finite acceleration that is not the zero vector and a finite quaternion, the three
  components of the accel error are finite.
\<close>

theorem accel_error_finite:
  assumes "ax \<noteq> 0 \<or> ay \<noteq> 0 \<or> az \<noteq> 0"
  shows "\<exists>e0 e1 e2. accel_error (Fin ax, Fin ay, Fin az) (Fin a, Fin b, Fin c, Fin d)
                       = (Fin e0, Fin e1, Fin e2)"
proof -
  have "ax * ax + ay * ay + az * az \<noteq> 0"
    using assms by (simp add: three_squares_zero)
  then have "sqrt (ax * ax + ay * ay + az * az) \<noteq> 0"
    by simp
  then show ?thesis
    by (simp add: accel_error_def gravity_body_def CrossProduct_def vec_div_def vec_len_def
        minus_cfloat_def)
qed

theorem accel_error_finite_witness:
  "((0::real) \<noteq> 0 \<or> (0::real) \<noteq> 0 \<or> (- 1::real) \<noteq> 0)
   \<and> accel_error (Fin 0, Fin 0, Fin (- 1)) (Fin 1, Fin 0, Fin 0, Fin 0) = (Fin 0, Fin 0, Fin 0)"
  using accel_error_finite [of 0 0 "- 1" 1 0 0 0]
  by (simp add: accel_error_def gravity_body_def CrossProduct_def vec_div_def vec_len_def
      minus_cfloat_def)

text \<open>
  The time step of the INS filter lies between 0.001 and 0.01 whatever the clock
  difference, and the prediction and the covariance prediction receive it.
\<close>

theorem ins_dT_clamped:
  "Fin 0.001 \<le> ins_dT inp \<and> ins_dT inp \<le> Fin 0.01
   \<and> ins (ins_predict X inp s)
       = ins s @ [INSStatePrediction (gyros_rad (Gyros inp) (GyrosBias s)) (Accels inp) (ins_dT inp),
                  INSCovariancePrediction (ins_dT inp)]"
  by (simp add: ins_dT_def of_u32_def ins_predict_def Let_def)

section \<open>Insufficient GPS\<close>

lemma alarm_fields [simp]:
  "Alarm_ATTITUDE (ins_do c s) = Alarm_ATTITUDE s"
  "Alarm_ATTITUDE (bias_guard X s) = Alarm_ATTITUDE s"
  "Alarm_ATTITUDE (ins_predict X inp s) = Alarm_ATTITUDE s"
  by (simp_all add: ins_do_def bias_guard_def ins_predict_def Let_def split: prod.splits)

lemma alarm_measurements:
  "ins_measurements X od inp s = (m, n, v, s') \<Longrightarrow> Alarm_ATTITUDE s' = Alarm_ATTITUDE s"
  by (auto simp add: ins_measurements_def Let_def split: if_splits)

lemma alarm_correct [simp]: "Alarm_ATTITUDE (ins_correct X od inp s) = Alarm_ATTITUDE s"
  by (auto simp add: ins_correct_def Let_def split: prod.splits dest: alarm_measurements)

lemma few_satellites_flags:
  assumes "inited s" "Satellites (GPSPosition inp) <s 7"
  shows "\<not> gps_updated (ins_flags True inp s)"
    and "Alarm_ATTITUDE (ins_flags True inp s) = SYSTEMALARMS_ALARM_ERROR"
    and "mag_updated (ins_flags True inp s) = mag_rx inp"
    and "baro_updated (ins_flags True inp s) = baro_rx inp"
  using assms
  by (simp_all add: ins_flags_def Let_def AlarmsSet_def AlarmsClear_def signed.not_le)

text \<open>
  An initialised outdoor filter that reads fewer than 7 satellites, with gyro and accel
  delivered: the call returns 0 with the alarm at Error, the attitude published is the
  engine's after its prediction, and the sensor mask holds the magnetometer and barometer
  bits of the samples that arrived and no GPS bit.
\<close>

theorem few_satellites:
  assumes "inited s" and "gyro_rx inp" and "accel_rx inp"
    and "Satellites (GPSPosition inp) <s 7"
  shows "fst (updateAttitudeINSGPS X N False True inp s) = 0
    \<and> Alarm_ATTITUDE (snd (updateAttitudeINSGPS X N False True inp s)) = SYSTEMALARMS_ALARM_ERROR
    \<and> attitude_q (AttitudeActual (snd (updateAttitudeINSGPS X N False True inp s)))
        = q (Nav X (ins s @ [INSStatePrediction (gyros_rad (Gyros inp) (GyrosBias s)) (Accels inp)
                               (ins_dT inp)]))
    \<and> fst (ins_measurements X True inp (ins_predict X inp (ins_flags True inp s)))
        = (if baro_rx inp then (if mag_rx inp then 0 OR MAG_SENSORS X else 0) OR BARO_SENSOR X
           else (if mag_rx inp then 0 OR MAG_SENSORS X else 0))"
proof -
  have u: "updateAttitudeINSGPS X N False True inp s
        = (0, ins_correct X True inp (ins_predict X inp (ins_flags True inp s)))"
  proof -
    have e: "s\<lparr>inited := True\<rparr> = s"
      using assms(1) by (cases s) auto
    have "updateAttitudeINSGPS X N False True inp s
        = (0, ins_correct X True inp (ins_predict X inp (ins_flags True inp (s\<lparr>inited := True\<rparr>))))"
      using assms(1,2,3) by (simp add: updateAttitudeINSGPS_def Let_def ins_running_step_def)
    then show ?thesis
      by (simp only: e)
  qed
  have p: "gps_updated (ins_predict X inp t) = gps_updated t"
    "mag_updated (ins_predict X inp t) = mag_updated t"
    "baro_updated (ins_predict X inp t) = baro_updated t" for t
    by (simp_all add: ins_predict_def Let_def ins_do_def publish_attitude_def split: prod.splits)
  have m: "fst (ins_measurements X True inp (ins_predict X inp (ins_flags True inp s)))
        = (if baro_rx inp then (if mag_rx inp then 0 OR MAG_SENSORS X else 0) OR BARO_SENSOR X
           else (if mag_rx inp then 0 OR MAG_SENSORS X else 0))"
    using few_satellites_flags [OF assms(1,4)]
    by (simp add: ins_measurements_def Let_def ins_do_def p)
  show ?thesis
    unfolding u using m few_satellites_flags(2) [OF assms(1,4)]
    by (simp add: correct_fields)
qed

theorem few_satellites_witness:
  "inited running_outdoor \<and> gyro_rx outdoor_cycle \<and> accel_rx outdoor_cycle
   \<and> Satellites (GPSPosition (outdoor_cycle\<lparr>GPSPosition := example_fix\<lparr>Satellites := 5\<rparr>\<rparr>)) <s 7
   \<and> fst (updateAttitudeINSGPS test_externals zeros False True
            (outdoor_cycle\<lparr>GPSPosition := example_fix\<lparr>Satellites := 5\<rparr>\<rparr>) running_outdoor) = 0
   \<and> Alarm_ATTITUDE (snd (updateAttitudeINSGPS test_externals zeros False True
            (outdoor_cycle\<lparr>GPSPosition := example_fix\<lparr>Satellites := 5\<rparr>\<rparr>) running_outdoor))
        = SYSTEMALARMS_ALARM_ERROR
   \<and> fst (ins_measurements test_externals True
            (outdoor_cycle\<lparr>GPSPosition := example_fix\<lparr>Satellites := 5\<rparr>\<rparr>)
            (ins_predict test_externals (outdoor_cycle\<lparr>GPSPosition := example_fix\<lparr>Satellites := 5\<rparr>\<rparr>)
               (ins_flags True (outdoor_cycle\<lparr>GPSPosition := example_fix\<lparr>Satellites := 5\<rparr>\<rparr>)
                  running_outdoor))) = 0x3C0"
proof -
  have h: "inited running_outdoor"
    "gyro_rx (outdoor_cycle\<lparr>GPSPosition := example_fix\<lparr>Satellites := 5\<rparr>\<rparr>)"
    "accel_rx (outdoor_cycle\<lparr>GPSPosition := example_fix\<lparr>Satellites := 5\<rparr>\<rparr>)"
    "Satellites (GPSPosition (outdoor_cycle\<lparr>GPSPosition := example_fix\<lparr>Satellites := 5\<rparr>\<rparr>)) <s 7"
    by (simp_all add: running_outdoor_def outdoor_cycle_def)
  have m: "baro_rx (outdoor_cycle\<lparr>GPSPosition := example_fix\<lparr>Satellites := 5\<rparr>\<rparr>)"
    "mag_rx (outdoor_cycle\<lparr>GPSPosition := example_fix\<lparr>Satellites := 5\<rparr>\<rparr>)"
    "MAG_SENSORS test_externals = 0x1C0" "BARO_SENSOR test_externals = 0x200"
    by (simp_all add: outdoor_cycle_def test_externals_def)
  show ?thesis
    using few_satellites [OF h, of test_externals zeros] h
    by (simp add: m)
qed

end
